theory Spec2Isabelle
  imports Complex_Main
begin

section \<open>PolarFlux: the class CRD of zaw\_coord2.py\<close>

text \<open>
  The module holds one class, \<^verbatim>\<open>CRD\<close>, built from a magnetogram that sunpy has
  loaded, and the function \<^verbatim>\<open>dot\<close>. Its methods are called either with a pixel
  (row, column) or with a whole 2D array, and in the second case they store their
  result on the object. The model below follows the file method by method.

  \<^item> The object is a record; an attribute that a method creates on first use
    (\<^verbatim>\<open>self.xg\<close>, \<^verbatim>\<open>self.lonh\<close>, ...) is an optional field, and
    \<^verbatim>\<open>hasattr\<close> is the test for \<open>Some\<close>.
  \<^item> A method takes the object and returns the object as it has left it, with
    either the exception it raised (\<open>Inl\<close>) or its value (\<open>Inr\<close>).
  \<^item> A 2D numpy array is a list of rows. Arithmetic on arrays is elementwise.
  \<^item> The float64 arithmetic of numpy is not defined here: every function takes
    the primitive operations as a record \<open>np\<close> over a type \<open>'f\<close> of floats, and the
    theorems hold for every such record. What is modelled exactly is everything
    around the arithmetic: the order of the operations, the indexing, the
    exceptions, and the attributes written.
\<close>

subsection \<open>Exceptions\<close>

datatype py_error =
    KeyError string
  | IndexError
  | NameError string
  | AttributeError string
  | TypeError

subsection \<open>The numpy primitives\<close>

text \<open>
  The scalar operations the module uses, on one float. \<open>fof_int\<close> is the
  conversion numpy applies to an integer operand that meets a float
  (\<^verbatim>\<open>np.arange(0, xdim) - self.X0\<close>, \<^verbatim>\<open>0*rat2\<close>, \<^verbatim>\<open>x/60\<close>, \<^verbatim>\<open>1.0\<close>),
  \<open>fsq\<close> is \<^verbatim>\<open>**2\<close>, \<open>fgt\<close> is \<^verbatim>\<open>>\<close>, \<open>fhalf\<close> is the literal \<^verbatim>\<open>.5\<close>,
  \<open>fr_sun\<close> the literal \<^verbatim>\<open>6.957e10\<close> and \<open>fnan\<close> is \<^verbatim>\<open>np.nan\<close>.
\<close>

record 'f numpy =
  fof_int :: "int \<Rightarrow> 'f"
  fhalf :: 'f
  fr_sun :: 'f
  fnan :: 'f
  fadd :: "'f \<Rightarrow> 'f \<Rightarrow> 'f"
  fsub :: "'f \<Rightarrow> 'f \<Rightarrow> 'f"
  fmul :: "'f \<Rightarrow> 'f \<Rightarrow> 'f"
  fdiv :: "'f \<Rightarrow> 'f \<Rightarrow> 'f"
  fneg :: "'f \<Rightarrow> 'f"
  fabs :: "'f \<Rightarrow> 'f"
  fsq :: "'f \<Rightarrow> 'f"
  fsqrt :: "'f \<Rightarrow> 'f"
  fsin :: "'f \<Rightarrow> 'f"
  fcos :: "'f \<Rightarrow> 'f"
  ftan :: "'f \<Rightarrow> 'f"
  farcsin :: "'f \<Rightarrow> 'f"
  farctan2 :: "'f \<Rightarrow> 'f \<Rightarrow> 'f"
  fdeg2rad :: "'f \<Rightarrow> 'f"
  frad2deg :: "'f \<Rightarrow> 'f"
  fgt :: "'f \<Rightarrow> 'f \<Rightarrow> bool"

subsection \<open>The sunpy map and the object\<close>

type_synonym 'f ndarray = "'f list list"

text \<open>
  What the module reads of \<^verbatim>\<open>sunpy.map.Map(filename)\<close>: the header
  \<^verbatim>\<open>meta\<close> (a dictionary), \<^verbatim>\<open>detector\<close>, \<^verbatim>\<open>rsun_obs.value\<close>,
  \<^verbatim>\<open>scale[0].value\<close> and \<^verbatim>\<open>scale[1].value\<close>, the two \<^verbatim>\<open>dimensions\<close> after
  \<^verbatim>\<open>np.int(np.floor(...))\<close> (a pixel count, so a natural number), and
  \<^verbatim>\<open>data\<close>.
\<close>

record 'f sunpy_map =
  meta :: "string \<rightharpoonup> 'f"
  detector :: string
  rsun_obs :: 'f
  scale :: "'f \<times> 'f"
  dimensions :: "nat \<times> nat"
  data :: "'f ndarray"

record 'f CRD =
  im_raw :: "'f sunpy_map"
  B0 :: 'f
  L0 :: 'f
  X0 :: 'f
  Y0 :: 'f
  rsun :: 'f
  xg :: "'f ndarray option"
  yg :: "'f ndarray option"
  rg :: "'f ndarray option"
  lonh :: "'f ndarray option"
  lath :: "'f ndarray option"
  im_corr :: "'f ndarray option"
  area :: "'f ndarray option"
  mgnt_flux :: "'f ndarray option"

subsection \<open>The constructor (lines 27--49)\<close>

text \<open>
  \<^verbatim>\<open>try: v = meta[k1]  except KeyError: v = meta[k2]\<close>. The second lookup is
  outside any handler, so its \<^verbatim>\<open>KeyError\<close> leaves the constructor.
\<close>

definition lookup2 :: "(string \<rightharpoonup> 'v) \<Rightarrow> string \<Rightarrow> string \<Rightarrow> py_error + 'v" where
  "lookup2 m k1 k2 =
     (case m k1 of
        Some v \<Rightarrow> Inr v
      | None \<Rightarrow> (case m k2 of Some v \<Rightarrow> Inr v | None \<Rightarrow> Inl (KeyError k2)))"

definition getitem :: "(string \<rightharpoonup> 'v) \<Rightarrow> string \<Rightarrow> py_error + 'v" where
  "getitem m k = (case m k of Some v \<Rightarrow> Inr v | None \<Rightarrow> Inl (KeyError k))"

definition new_CRD :: "'f sunpy_map \<Rightarrow> 'f \<Rightarrow> 'f \<Rightarrow> 'f \<Rightarrow> 'f \<Rightarrow> 'f \<Rightarrow> 'f CRD" where
  "new_CRD im b l x y r =
     \<lparr> im_raw = im, B0 = b, L0 = l, X0 = x, Y0 = y, rsun = r,
       xg = None, yg = None, rg = None, lonh = None, lath = None,
       im_corr = None, area = None, mgnt_flux = None \<rparr>"

definition CRD_init :: "'f numpy \<Rightarrow> 'f sunpy_map \<Rightarrow> py_error + 'f CRD" where
  "CRD_init np im =
     (case lookup2 (meta im) ''B0'' ''OBS_B0'' of Inl e \<Rightarrow> Inl e | Inr b \<Rightarrow>
      case lookup2 (meta im) ''L0'' ''OBS_L0'' of Inl e \<Rightarrow> Inl e | Inr l \<Rightarrow>
      case lookup2 (meta im) ''X0'' ''IMG_X0'' of Inl e \<Rightarrow> Inl e | Inr x \<Rightarrow>
      case lookup2 (meta im) ''Y0'' ''IMG_Y0'' of Inl e \<Rightarrow> Inl e | Inr y \<Rightarrow>
      if detector im = ''SPMG''
      then (case getitem (meta im) ''SCALE'' of
              Inl e \<Rightarrow> Inl e
            | Inr sc \<Rightarrow> Inr (new_CRD im b l x y (fdiv np (rsun_obs im) sc)))
      else Inr (new_CRD im b l x y (rsun_obs im)))"

text \<open>The four fields with their two header keys, in the order the constructor reads them.\<close>

definition field_keys :: "(string \<times> string) list" where
  "field_keys = [(''B0'', ''OBS_B0''), (''L0'', ''OBS_L0''), (''X0'', ''IMG_X0''), (''Y0'', ''IMG_Y0'')]"

text \<open>The value of the first of two keys that the header holds.\<close>

definition first_found :: "(string \<rightharpoonup> 'v) \<Rightarrow> string \<Rightarrow> string \<Rightarrow> 'v option" where
  "first_found m k1 k2 = (case m k1 of Some v \<Rightarrow> Some v | None \<Rightarrow> m k2)"


subsection \<open>Arguments and arrays\<close>

text \<open>
  Every method is declared \<^verbatim>\<open>(self, *args)\<close> and tests
  \<^verbatim>\<open>isinstance(args[0], np.ndarray)\<close>. A call is modelled by its first argument,
  an array or a number, and the list of the numbers that follow it.
\<close>

datatype 'f pyarg = NDArray "'f ndarray" | Scalar 'f

text \<open>What a method returns: one or two arrays for an array call, one or two numbers for a pixel.\<close>

datatype 'f pyval = Arr "'f ndarray" | Arr2 "'f ndarray" "'f ndarray" | Val 'f | Val2 'f 'f

definition amap :: "('a \<Rightarrow> 'b) \<Rightarrow> 'a list list \<Rightarrow> 'b list list" where
  "amap f a = map (map f) a"

definition amap2 :: "('a \<Rightarrow> 'b \<Rightarrow> 'c) \<Rightarrow> 'a list list \<Rightarrow> 'b list list \<Rightarrow> 'c list list" where
  "amap2 f a b = map (\<lambda>(r1, r2). map (\<lambda>(u, v). f u v) (zip r1 r2)) (zip a b)"

text \<open>\<^verbatim>\<open>np.meshgrid(xrow, yrow, indexing='xy')\<close>: both results have one row per element of
  \<^verbatim>\<open>yrow\<close> and one column per element of \<^verbatim>\<open>xrow\<close>.\<close>

definition meshgrid :: "'a list \<Rightarrow> 'a list \<Rightarrow> 'a list list \<times> 'a list list" where
  "meshgrid xrow yrow = (map (\<lambda>_. xrow) yrow, map (\<lambda>y. map (\<lambda>_. y) xrow) yrow)"

text \<open>
  Line 113 is \<^verbatim>\<open>w_rat2 = np.where(rat2 is not 0)\<close>. \<^verbatim>\<open>rat2\<close> is a numpy value and
  \<^verbatim>\<open>0\<close> an int, so \<^verbatim>\<open>rat2 is not 0\<close> is the Python value \<^verbatim>\<open>True\<close> whatever
  \<^verbatim>\<open>rat2\<close> holds, and \<^verbatim>\<open>np.where(True)\<close> is the 1-tuple \<^verbatim>\<open>(array([0]),)\<close> in
  the numpy releases that still have \<^verbatim>\<open>np.int\<close>, which line 81 needs. Used as
  an index, the tuple selects along the first axis the rows listed: row 0.
\<close>

definition where_True :: "nat list" where
  "where_True = [0]"

text \<open>\<^verbatim>\<open>a[w]\<close> and \<^verbatim>\<open>a[w] = rows\<close> for a 2D array and a 1-tuple of row indices;
  an index past the last row raises IndexError.\<close>

definition take_rows :: "'a list list \<Rightarrow> nat list \<Rightarrow> py_error + 'a list list" where
  "take_rows a w = (if list_all (\<lambda>k. k < length a) w then Inr (map (\<lambda>k. a ! k) w) else Inl IndexError)"

definition put_rows :: "'a list list \<Rightarrow> nat list \<Rightarrow> 'a list list \<Rightarrow> 'a list list" where
  "put_rows a w rows = fold (\<lambda>(k, r) b. b[k := r]) (zip w rows) a"

text \<open>
  The same index on a numpy scalar (\<^verbatim>\<open>np.float64\<close>): a scalar has no axis, and
  numpy raises \<^verbatim>\<open>IndexError: invalid index to scalar variable\<close> for every index
  that holds an index array.
\<close>

definition take_scalar :: "'a \<Rightarrow> nat list \<Rightarrow> py_error + 'a" where
  "take_scalar v w = Inl IndexError"

subsection \<open>heliographic (lines 56--145)\<close>

definition xScl :: "'f CRD \<Rightarrow> 'f" where "xScl s = fst (scale (im_raw s))"
definition yScl :: "'f CRD \<Rightarrow> 'f" where "yScl s = snd (scale (im_raw s))"
definition xdim :: "'f CRD \<Rightarrow> nat" where "xdim s = fst (dimensions (im_raw s))"
definition ydim :: "'f CRD \<Rightarrow> nat" where "ydim s = snd (dimensions (im_raw s))"

text \<open>
  Lines 83--96. With two numbers after the array, \<^verbatim>\<open>args[1]\<close> and \<^verbatim>\<open>args[2]\<close>
  are added to the column and row numbers; with fewer, \<^verbatim>\<open>args[1]\<close> or
  \<^verbatim>\<open>args[2]\<close> raises IndexError inside the \<^verbatim>\<open>try\<close> and the handler computes
  the rows without them.
\<close>

definition pixel_rows :: "'f numpy \<Rightarrow> 'f CRD \<Rightarrow> 'f list \<Rightarrow> 'f list \<times> 'f list" where
  "pixel_rows np s rest =
     (case rest of
        dx # dy # _ \<Rightarrow>
          (map (\<lambda>j. fmul np (fadd np (fsub np (fof_int np (int j)) (X0 s)) dx) (xScl s)) [0..<xdim s],
           map (\<lambda>i. fmul np (fadd np (fsub np (fof_int np (int i)) (Y0 s)) dy) (yScl s)) [0..<ydim s])
      | _ \<Rightarrow>
          (map (\<lambda>j. fmul np (fsub np (fof_int np (int j)) (X0 s)) (xScl s)) [0..<xdim s],
           map (\<lambda>i. fmul np (fsub np (fof_int np (int i)) (Y0 s)) (yScl s)) [0..<ydim s]))"

text \<open>Line 106.\<close>

definition Robs :: "'f numpy \<Rightarrow> 'f \<Rightarrow> 'f" where
  "Robs np radius = fdiv np (fof_int np 1) (ftan np (fdeg2rad np (fdiv np radius (fof_int np 60))))"

text \<open>Lines 116--117.\<close>

definition max_rat2 :: "'f numpy \<Rightarrow> 'f \<Rightarrow> 'f" where
  "max_rat2 np radius =
     (let max_ra = farcsin np (fdiv np (fof_int np 1) (Robs np radius))
      in fmul np (ftan np max_ra) (ftan np max_ra))"

text \<open>
  Lines 119--121. \<^verbatim>\<open>ii = np.where(rat2 > max_rat2)\<close> is the pair of the row and
  the column numbers of the cells beyond the limb, and the test
  \<^verbatim>\<open>ii[0].any() > 0\<close> asks whether one of the row numbers is not 0: the cells of
  row 0 do not count. When it holds, every cell beyond the limb is set to
  \<^verbatim>\<open>max_rat2\<close>.
\<close>

definition clamp :: "'f numpy \<Rightarrow> 'f \<Rightarrow> 'f ndarray \<Rightarrow> 'f ndarray" where
  "clamp np m rat2 =
     (if list_ex (list_ex (\<lambda>v. fgt np v m)) (tl rat2)
      then amap (\<lambda>v. if fgt np v m then m else v) rat2
      else rat2)"

text \<open>Lines 125--135, after \<^verbatim>\<open>phi\<close> and the clamped \<^verbatim>\<open>rat2\<close>.\<close>

definition to_sphere ::
  "'f numpy \<Rightarrow> 'f \<Rightarrow> 'f ndarray \<Rightarrow> 'f ndarray \<Rightarrow> py_error + 'f ndarray \<times> 'f ndarray" where
  "to_sphere np radius phi rat2 =
     (case take_rows rat2 where_True of
        Inl e \<Rightarrow> Inl e
      | Inr rat2w \<Rightarrow>
          let ras2 = put_rows (amap (fmul np (fof_int np 0)) rat2) where_True
                       (amap (\<lambda>v. fdiv np (fof_int np 1)
                                   (fadd np (fof_int np 1) (fdiv np (fof_int np 1) v))) rat2w);
              d1 = amap (fsub np (fof_int np 1)) ras2;
              d2 = amap (\<lambda>v. fsub np (fof_int np 1) (fmul np (fsq np (Robs np radius)) v)) ras2;
              x = amap2 (fadd np) (amap (\<lambda>v. fmul np v (Robs np radius)) ras2)
                    (amap2 (fmul np) (amap (fsqrt np) d1) (amap (fsqrt np) d2));
              rr = amap (\<lambda>v. fsqrt np (fmul np v (Robs np radius))) rat2;
              t1 = amap2 (fmul np) (amap (fsin np) phi) rr;
              t2 = amap2 (fmul np) (amap (fcos np) phi) rr;
              hglt = amap (farcsin np) t2;
              hgln = amap2 (farctan2 np) x t1
          in Inr (hgln, hglt))"

text \<open>Lines 104--135 on the arrays \<^verbatim>\<open>x\<close> and \<^verbatim>\<open>y\<close> of an array call.\<close>

definition transform ::
  "'f numpy \<Rightarrow> 'f \<Rightarrow> 'f ndarray \<Rightarrow> 'f ndarray \<Rightarrow> py_error + 'f ndarray \<times> 'f ndarray" where
  "transform np radius x y =
     (let xxat = amap (\<lambda>v. ftan np (fdeg2rad np (fdiv np v (fof_int np 60)))) x;
          yyat = amap (\<lambda>v. ftan np (fdeg2rad np (fdiv np v (fof_int np 60)))) y;
          rat2 = amap2 (fadd np) (amap (fsq np) xxat) (amap (fsq np) yyat);
          phi0 = amap (fmul np (fof_int np 0)) rat2
      in case take_rows xxat where_True of
           Inl e \<Rightarrow> Inl e
         | Inr xw \<Rightarrow>
             (case take_rows yyat where_True of
                Inl e \<Rightarrow> Inl e
              | Inr yw \<Rightarrow>
                  to_sphere np radius
                    (put_rows phi0 where_True (amap2 (farctan2 np) xw yw))
                    (clamp np (max_rat2 np radius) rat2)))"

text \<open>
  Lines 101--114 for a pixel. \<^verbatim>\<open>x\<close>, \<^verbatim>\<open>y\<close>, \<^verbatim>\<open>xxat\<close>, \<^verbatim>\<open>yyat\<close>,
  \<^verbatim>\<open>rat2\<close> and \<^verbatim>\<open>phi\<close> are numpy scalars here, and line 114 indexes
  \<^verbatim>\<open>xxat\<close> with \<^verbatim>\<open>w_rat2\<close>; the right-hand side is evaluated first (and
  the assignment to \<^verbatim>\<open>phi[w_rat2]\<close>, on a scalar, would raise TypeError). The
  lines after 114 are not reached by a pixel call.
\<close>

definition point_offsets :: "'f numpy \<Rightarrow> 'f CRD \<Rightarrow> 'f \<Rightarrow> 'f \<Rightarrow> 'f \<times> 'f" where
  "point_offsets np s row col =
     (fdiv np (fmul np (fsub np col (X0 s)) (xScl s)) (fof_int np 60),
      fdiv np (fmul np (fsub np (Y0 s) row) (yScl s)) (fof_int np 60))"

definition transform_point :: "'f numpy \<Rightarrow> 'f \<Rightarrow> 'f \<Rightarrow> 'f \<Rightarrow> py_error + 'f \<times> 'f" where
  "transform_point np radius x y =
     (let xxat = ftan np (fdeg2rad np (fdiv np x (fof_int np 60)));
          yyat = ftan np (fdeg2rad np (fdiv np y (fof_int np 60)));
          rat2 = fadd np (fsq np xxat) (fsq np yyat);
          phi = fmul np (fof_int np 0) rat2
      in case take_scalar xxat where_True of
           Inl e \<Rightarrow> Inl e
         | Inr xw \<Rightarrow>
             (case take_scalar yyat where_True of
                Inl e \<Rightarrow> Inl e
              | Inr yw \<Rightarrow> Inl TypeError))"

definition heliographic_point ::
  "'f numpy \<Rightarrow> 'f CRD \<Rightarrow> 'f \<Rightarrow> 'f list \<Rightarrow> 'f CRD \<times> (py_error + 'f \<times> 'f)" where
  "heliographic_point np s row rest =
     (case rest of
        [] \<Rightarrow> (s, Inl IndexError)
      | col # _ \<Rightarrow>
          (case point_offsets np s row col of
             (x, y) \<Rightarrow> (s, transform_point np (rsun s) x y)))"

definition heliographic_grid ::
  "'f numpy \<Rightarrow> 'f CRD \<Rightarrow> 'f list \<Rightarrow> 'f CRD \<times> (py_error + 'f ndarray \<times> 'f ndarray)" where
  "heliographic_grid np s rest =
     (case pixel_rows np s rest of (xrow, yrow) \<Rightarrow>
      case meshgrid xrow yrow of (gx, gy) \<Rightarrow>
      let s1 = s\<lparr> xg := Some gx, yg := Some gy,
                  rg := Some (amap (fsqrt np) (amap2 (fadd np) (amap (fsq np) gx) (amap (fsq np) gy))) \<rparr>
      in case transform np (rsun s) gx (amap (fneg np) gy) of
           Inl e \<Rightarrow> (s1, Inl e)
         | Inr (hgln, hglt) \<Rightarrow>
             (if lonh s1 = None
              then s1\<lparr> lonh := Some (amap (frad2deg np) hgln), lath := Some (amap (frad2deg np) hglt) \<rparr>
              else s1,
              Inr (amap (frad2deg np) hgln, amap (frad2deg np) hglt)))"

definition heliographic ::
  "'f numpy \<Rightarrow> 'f CRD \<Rightarrow> 'f pyarg \<times> 'f list \<Rightarrow> 'f CRD \<times> (py_error + 'f pyval)" where
  "heliographic np s args =
     (case fst args of
        NDArray d \<Rightarrow>
          (case heliographic_grid np s (snd args) of
             (s', Inl e) \<Rightarrow> (s', Inl e)
           | (s', Inr (lon, lat)) \<Rightarrow> (s', Inr (Arr2 lon lat)))
      | Scalar row \<Rightarrow>
          (case heliographic_point np s row (snd args) of
             (s', Inl e) \<Rightarrow> (s', Inl e)
           | (s', Inr (lon, lat)) \<Rightarrow> (s', Inr (Val2 lon lat))))"

subsection \<open>los\_corr (lines 147--171)\<close>

text \<open>
  Lines 155--158 call \<^verbatim>\<open>heliographic\<close>; an array call passes the array alone.
  Line 160 then reads the name \<^verbatim>\<open>B0\<close>, which is neither a local of the method
  nor a name of the module (the attribute is \<^verbatim>\<open>self.B0\<close>): Python raises
  NameError, and lines 161--171 are not reached.
\<close>

definition los_corr_grid :: "'f numpy \<Rightarrow> 'f CRD \<Rightarrow> 'f CRD \<times> (py_error + 'f ndarray)" where
  "los_corr_grid np s =
     (case heliographic_grid np s [] of
        (s1, Inl e) \<Rightarrow> (s1, Inl e)
      | (s1, Inr (lon, lat)) \<Rightarrow>
          let lonh' = amap (fdeg2rad np) lon; lath' = amap (fdeg2rad np) lat
          in (s1, Inl (NameError ''B0'')))"

definition los_corr_point :: "'f numpy \<Rightarrow> 'f CRD \<Rightarrow> 'f \<Rightarrow> 'f list \<Rightarrow> 'f CRD \<times> (py_error + 'f)" where
  "los_corr_point np s row rest =
     (case rest of
        [] \<Rightarrow> (s, Inl IndexError)
      | col # _ \<Rightarrow>
          (case heliographic_point np s row [col] of
             (s1, Inl e) \<Rightarrow> (s1, Inl e)
           | (s1, Inr (lon, lat)) \<Rightarrow>
               let lonh' = fdeg2rad np lon; lath' = fdeg2rad np lat
               in (s1, Inl (NameError ''B0''))))"

definition los_corr ::
  "'f numpy \<Rightarrow> 'f CRD \<Rightarrow> 'f pyarg \<times> 'f list \<Rightarrow> 'f CRD \<times> (py_error + 'f pyval)" where
  "los_corr np s args =
     (case fst args of
        NDArray d \<Rightarrow>
          (case los_corr_grid np s of
             (s', Inl e) \<Rightarrow> (s', Inl e)
           | (s', Inr a) \<Rightarrow> (s', Inr (Arr a)))
      | Scalar row \<Rightarrow>
          (case los_corr_point np s row (snd args) of
             (s', Inl e) \<Rightarrow> (s', Inl e)
           | (s', Inr v) \<Rightarrow> (s', Inr (Val v))))"

subsection \<open>eoa and dot (lines 173--235, 245--246)\<close>

text \<open>Lines 200--226 on the numbers of one pixel: a vector is a triple.\<close>

definition unit_vector :: "'f numpy \<Rightarrow> 'f \<Rightarrow> 'f \<Rightarrow> 'f \<times> 'f \<times> 'f" where
  "unit_vector np lat lon =
     (fmul np (fcos np (fdeg2rad np lat)) (fcos np (fdeg2rad np lon)),
      fmul np (fcos np (fdeg2rad np lat)) (fsin np (fdeg2rad np lon)),
      fsin np (fdeg2rad np lat))"

definition dot :: "'f numpy \<Rightarrow> 'f \<times> 'f \<times> 'f \<Rightarrow> 'f \<times> 'f \<times> 'f \<Rightarrow> 'f" where
  "dot np a b =
     (case a of (a0, a1, a2) \<Rightarrow> case b of (b0, b1, b2) \<Rightarrow>
        fadd np (fadd np (fmul np a0 b0) (fmul np a1 b1)) (fmul np a2 b2))"

text \<open>\<^verbatim>\<open>np.cross(a, b, axis=0)\<close> for vectors of three components.\<close>

definition cross :: "'f numpy \<Rightarrow> 'f \<times> 'f \<times> 'f \<Rightarrow> 'f \<times> 'f \<times> 'f \<Rightarrow> 'f \<times> 'f \<times> 'f" where
  "cross np a b =
     (case a of (a0, a1, a2) \<Rightarrow> case b of (b0, b1, b2) \<Rightarrow>
        (fsub np (fmul np a1 b2) (fmul np a2 b1),
         fsub np (fmul np a2 b0) (fmul np a0 b2),
         fsub np (fmul np a0 b1) (fmul np a1 b0)))"

definition solid_angle :: "'f numpy \<Rightarrow> 'f \<times> 'f \<Rightarrow> 'f \<times> 'f \<Rightarrow> 'f \<times> 'f \<Rightarrow> 'f \<times> 'f \<Rightarrow> 'f" where
  "solid_angle np UL LL LR UR =
     (let r1 = unit_vector np (snd UL) (fst UL);
          r2 = unit_vector np (snd LL) (fst LL);
          r3 = unit_vector np (snd LR) (fst LR);
          r4 = unit_vector np (snd UR) (fst UR);
          cross1 = cross np r1 r2;
          cross2 = cross np r3 r4;
          numerator1 = dot np cross1 r3;
          numerator2 = dot np cross2 r1;
          solid_angle1 = fmul np (fof_int np 2) (farctan2 np numerator1
             (fadd np (fadd np (fadd np (dot np r1 r2) (dot np r2 r3)) (dot np r3 r1)) (fof_int np 1)));
          solid_angle2 = fmul np (fof_int np 2) (farctan2 np numerator2
             (fadd np (fadd np (fadd np (dot np r3 r4) (dot np r4 r1)) (dot np r3 r1)) (fof_int np 1)))
      in fadd np solid_angle1 solid_angle2)"

text \<open>Lines 227 and 235: \<^verbatim>\<open>np.abs((r**2)*solid_angle)\<close> with \<^verbatim>\<open>r = 6.957e10 * u.cm\<close>.\<close>

definition pixel_area :: "'f numpy \<Rightarrow> 'f \<times> 'f \<Rightarrow> 'f \<times> 'f \<Rightarrow> 'f \<times> 'f \<Rightarrow> 'f \<times> 'f \<Rightarrow> 'f" where
  "pixel_area np UL LL LR UR = fabs np (fmul np (fsq np (fr_sun np)) (solid_angle np UL LL LR UR))"

definition eoa_point :: "'f numpy \<Rightarrow> 'f CRD \<Rightarrow> 'f \<Rightarrow> 'f list \<Rightarrow> 'f CRD \<times> (py_error + 'f)" where
  "eoa_point np s x rest =
     (case rest of
        [] \<Rightarrow> (s, Inl IndexError)
      | y # _ \<Rightarrow>
          (case heliographic_point np s (fsub np x (fhalf np)) [fsub np y (fhalf np)] of
             (s1, Inl e) \<Rightarrow> (s1, Inl e)
           | (s1, Inr UL) \<Rightarrow>
          (case heliographic_point np s1 (fadd np x (fhalf np)) [fsub np y (fhalf np)] of
             (s2, Inl e) \<Rightarrow> (s2, Inl e)
           | (s2, Inr LL) \<Rightarrow>
          (case heliographic_point np s2 (fadd np x (fhalf np)) [fadd np y (fhalf np)] of
             (s3, Inl e) \<Rightarrow> (s3, Inl e)
           | (s3, Inr LR) \<Rightarrow>
          (case heliographic_point np s3 (fsub np x (fhalf np)) [fadd np y (fhalf np)] of
             (s4, Inl e) \<Rightarrow> (s4, Inl e)
           | (s4, Inr UR) \<Rightarrow> (s4, Inr (pixel_area np UL LL LR UR)))))))"

text \<open>
  The same lines on arrays: numpy applies them to every cell. \<open>cells\<close> pairs the
  longitude and the latitude of each cell, \<open>amap4\<close> applies a function of four
  arguments cell by cell.
\<close>

definition cells :: "'a list list \<times> 'b list list \<Rightarrow> ('a \<times> 'b) list list" where
  "cells p = amap2 Pair (fst p) (snd p)"

definition amap4 ::
  "('a \<Rightarrow> 'b \<Rightarrow> 'c \<Rightarrow> 'd \<Rightarrow> 'e) \<Rightarrow> 'a list list \<Rightarrow> 'b list list \<Rightarrow> 'c list list \<Rightarrow> 'd list list \<Rightarrow> 'e list list" where
  "amap4 f a b c d = amap2 (\<lambda>(u, v) (w, z). f u v w z) (amap2 Pair a b) (amap2 Pair c d)"

text \<open>
  Lines 229--233. \<^verbatim>\<open>self.area\<close> is assigned first, then the cells where
  \<^verbatim>\<open>self.rg > self.rsun\<close> are overwritten with \<^verbatim>\<open>np.nan\<close>; \<^verbatim>\<open>self.rg\<close> is the
  array the last call of \<^verbatim>\<open>heliographic\<close> has stored.
\<close>

definition mask_off_disk :: "'f numpy \<Rightarrow> 'f \<Rightarrow> 'f ndarray \<Rightarrow> 'f ndarray \<Rightarrow> 'f ndarray" where
  "mask_off_disk np r a g = amap2 (\<lambda>v d. if fgt np d r then fnan np else v) a g"

definition eoa_grid :: "'f numpy \<Rightarrow> 'f CRD \<Rightarrow> 'f CRD \<times> (py_error + 'f ndarray)" where
  "eoa_grid np s =
     (case heliographic_grid np s [fneg np (fhalf np), fneg np (fhalf np)] of
        (s1, Inl e) \<Rightarrow> (s1, Inl e)
      | (s1, Inr UL) \<Rightarrow>
     (case heliographic_grid np s1 [fhalf np, fneg np (fhalf np)] of
        (s2, Inl e) \<Rightarrow> (s2, Inl e)
      | (s2, Inr LL) \<Rightarrow>
     (case heliographic_grid np s2 [fhalf np, fhalf np] of
        (s3, Inl e) \<Rightarrow> (s3, Inl e)
      | (s3, Inr LR) \<Rightarrow>
     (case heliographic_grid np s3 [fneg np (fhalf np), fhalf np] of
        (s4, Inl e) \<Rightarrow> (s4, Inl e)
      | (s4, Inr UR) \<Rightarrow>
          let a = amap4 (pixel_area np) (cells UL) (cells LL) (cells LR) (cells UR)
          in (case rg s4 of
                None \<Rightarrow> (s4\<lparr> area := Some a \<rparr>, Inl (AttributeError ''rg''))
              | Some g \<Rightarrow>
                  (s4\<lparr> area := Some (mask_off_disk np (rsun s4) a g) \<rparr>,
                   Inr (mask_off_disk np (rsun s4) a g)))))))"

definition eoa ::
  "'f numpy \<Rightarrow> 'f CRD \<Rightarrow> 'f pyarg \<times> 'f list \<Rightarrow> 'f CRD \<times> (py_error + 'f pyval)" where
  "eoa np s args =
     (case fst args of
        NDArray d \<Rightarrow>
          (case eoa_grid np s of
             (s', Inl e) \<Rightarrow> (s', Inl e)
           | (s', Inr a) \<Rightarrow> (s', Inr (Arr a)))
      | Scalar x \<Rightarrow>
          (case eoa_point np s x (snd args) of
             (s', Inl e) \<Rightarrow> (s', Inl e)
           | (s', Inr v) \<Rightarrow> (s', Inr (Val v))))"

subsection \<open>magnetic\_flux (lines 237--243)\<close>

text \<open>
  Line 239 is \<^verbatim>\<open>area = self.area(*args)\<close>. The class has no method \<^verbatim>\<open>area\<close>
  (the area method is \<^verbatim>\<open>eoa\<close>). Before an array call of \<^verbatim>\<open>eoa\<close> the object has
  no attribute of that name and the lookup raises AttributeError; after one,
  \<^verbatim>\<open>self.area\<close> is the array \<^verbatim>\<open>eoa\<close> has stored, and calling an array raises
  TypeError. Lines 240--243 are not reached.
\<close>

definition magnetic_flux ::
  "'f numpy \<Rightarrow> 'f CRD \<Rightarrow> 'f pyarg \<times> 'f list \<Rightarrow> 'f CRD \<times> (py_error + 'f pyval)" where
  "magnetic_flux np s args =
     (case area s of
        None \<Rightarrow> (s, Inl (AttributeError ''area''))
      | Some a \<Rightarrow> (s, Inl TypeError))"

subsection \<open>Sequences of calls\<close>

datatype 'f call =
    Heliographic "'f pyarg \<times> 'f list"
  | Los_corr "'f pyarg \<times> 'f list"
  | Eoa "'f pyarg \<times> 'f list"
  | Magnetic_flux "'f pyarg \<times> 'f list"

text \<open>The object after one call, and after a list of calls; an exception leaves
  the object as the method had it when it raised.\<close>

fun after_call :: "'f numpy \<Rightarrow> 'f CRD \<Rightarrow> 'f call \<Rightarrow> 'f CRD" where
  "after_call np s (Heliographic args) = fst (heliographic np s args)"
| "after_call np s (Los_corr args) = fst (los_corr np s args)"
| "after_call np s (Eoa args) = fst (eoa np s args)"
| "after_call np s (Magnetic_flux args) = fst (magnetic_flux np s args)"

definition after_calls :: "'f numpy \<Rightarrow> 'f CRD \<Rightarrow> 'f call list \<Rightarrow> 'f CRD" where
  "after_calls np s cs = foldl (after_call np) s cs"

subsection \<open>Per-pixel readings\<close>

text \<open>Lines 84--87 for the cell in row \<open>i\<close> and column \<open>j\<close>, with the numbers \<open>dx\<close>
  and \<open>dy\<close> that follow the array in the call: the cell of \<^verbatim>\<open>self.rg\<close>.\<close>

definition radial_distance :: "'f numpy \<Rightarrow> 'f CRD \<Rightarrow> 'f \<Rightarrow> 'f \<Rightarrow> nat \<Rightarrow> nat \<Rightarrow> 'f" where
  "radial_distance np s dx dy i j =
     fsqrt np (fadd np
       (fsq np (fmul np (fadd np (fsub np (fof_int np (int j)) (X0 s)) dx) (xScl s)))
       (fsq np (fmul np (fadd np (fsub np (fof_int np (int i)) (Y0 s)) dy) (yScl s))))"

text \<open>
  Lines 108--135 for a cell that is not in row 0 of an array call. \<^verbatim>\<open>phi\<close> and
  \<^verbatim>\<open>ras2\<close> are assigned in row 0 only (\<^verbatim>\<open>w_rat2\<close> selects that row), so the
  cell keeps \<^verbatim>\<open>0*rat2\<close> in both; and the test of line 120 holds as soon as the
  cell itself is beyond the limb, so the cell is set to \<^verbatim>\<open>max_rat2\<close> exactly
  when it exceeds it. \<open>xv\<close> and \<open>yv\<close> are the cell's entries of \<^verbatim>\<open>x\<close> and \<^verbatim>\<open>y\<close>.
\<close>

definition lower_cell :: "'f numpy \<Rightarrow> 'f \<Rightarrow> 'f \<Rightarrow> 'f \<Rightarrow> 'f \<times> 'f" where
  "lower_cell np radius xv yv =
     (let xxat = ftan np (fdeg2rad np (fdiv np xv (fof_int np 60)));
          yyat = ftan np (fdeg2rad np (fdiv np yv (fof_int np 60)));
          rat2 = fadd np (fsq np xxat) (fsq np yyat);
          phi = fmul np (fof_int np 0) rat2;
          rat2c = (if fgt np rat2 (max_rat2 np radius) then max_rat2 np radius else rat2);
          ras2 = fmul np (fof_int np 0) rat2c;
          d1 = fsub np (fof_int np 1) ras2;
          d2 = fsub np (fof_int np 1) (fmul np (fsq np (Robs np radius)) ras2);
          x = fadd np (fmul np ras2 (Robs np radius)) (fmul np (fsqrt np d1) (fsqrt np d2));
          rr = fsqrt np (fmul np rat2c (Robs np radius));
          t1 = fmul np (fsin np phi) rr;
          t2 = fmul np (fcos np phi) rr
      in (farctan2 np x t1, farcsin np t2))"

text \<open>The cell in row \<open>i\<close> and column \<open>j\<close> of the array a call has returned.\<close>

definition arr_cell :: "py_error + 'f pyval \<Rightarrow> nat \<Rightarrow> nat \<Rightarrow> 'f option" where
  "arr_cell r i j =
     (case r of
        Inr (Arr a) \<Rightarrow> if i < length a \<and> j < length (a ! i) then Some (a ! i ! j) else None
      | _ \<Rightarrow> None)"

text \<open>The longitude and latitude of the cell in the array projection with the
  offsets \<open>dx\<close> and \<open>dy\<close>: one corner of the pixel.\<close>

definition corner_cell :: "'f numpy \<Rightarrow> 'f CRD \<Rightarrow> 'f \<Rightarrow> 'f \<Rightarrow> nat \<Rightarrow> nat \<Rightarrow> ('f \<times> 'f) option" where
  "corner_cell np s dx dy i j =
     (case snd (heliographic_grid np s [dx, dy]) of
        Inl e \<Rightarrow> None
      | Inr (lon, lat) \<Rightarrow> Some (lon ! i ! j, lat ! i ! j))"

text \<open>An array of \<open>n\<close> rows and \<open>m\<close> columns.\<close>

definition shaped :: "nat \<Rightarrow> nat \<Rightarrow> 'a list list \<Rightarrow> bool" where
  "shaped n m a = (length a = n \<and> list_all (\<lambda>r. length r = m) a)"

text \<open>What the methods read of the object and never write, and what the
  constructor alone writes.\<close>

definition same_inputs :: "'f CRD \<Rightarrow> 'f CRD \<Rightarrow> bool" where
  "same_inputs s s' =
     (im_raw s' = im_raw s \<and> B0 s' = B0 s \<and> L0 s' = L0 s \<and> X0 s' = X0 s \<and> Y0 s' = Y0 s \<and> rsun s' = rsun s)"

subsection \<open>An instance of the primitives, and three objects\<close>

text \<open>
  To apply the theorems to concrete calls, the primitives are instantiated with
  exact real arithmetic: a float is a real number, or \<open>None\<close> for not-a-number,
  and an operation outside its domain (a division by zero, the root of a
  negative number, the arcsine of a number beyond 1) gives not-a-number. The
  instance rounds nothing and has no infinities, so it differs from float64
  where numpy divides by zero; the cells evaluated below do not.
\<close>

definition lift2 :: "(real \<Rightarrow> real \<Rightarrow> real) \<Rightarrow> real option \<Rightarrow> real option \<Rightarrow> real option" where
  "lift2 f a b = (case a of None \<Rightarrow> None | Some x \<Rightarrow> (case b of None \<Rightarrow> None | Some y \<Rightarrow> Some (f x y)))"

definition arctan2 :: "real \<Rightarrow> real \<Rightarrow> real" where
  "arctan2 y x =
     (if 0 < x then arctan (y / x)
      else if x < 0 then (if 0 \<le> y then arctan (y / x) + pi else arctan (y / x) - pi)
      else if 0 < y then pi / 2 else if y < 0 then - pi / 2 else 0)"

definition np_exact :: "real option numpy" where
  "np_exact =
     \<lparr> fof_int = (\<lambda>i. Some (of_int i)),
       fhalf = Some (1 / 2),
       fr_sun = Some 69570000000,
       fnan = None,
       fadd = lift2 (\<lambda>x y. x + y),
       fsub = lift2 (\<lambda>x y. x - y),
       fmul = lift2 (\<lambda>x y. x * y),
       fdiv = (\<lambda>a b. if b = Some 0 then None else lift2 (\<lambda>x y. x / y) a b),
       fneg = map_option uminus,
       fabs = map_option abs,
       fsq = map_option (\<lambda>x. x * x),
       fsqrt = (\<lambda>a. case a of None \<Rightarrow> None | Some x \<Rightarrow> if x < 0 then None else Some (sqrt x)),
       fsin = map_option sin,
       fcos = map_option cos,
       ftan = (\<lambda>a. case a of None \<Rightarrow> None | Some x \<Rightarrow> if cos x = 0 then None else Some (tan x)),
       farcsin = (\<lambda>a. case a of None \<Rightarrow> None | Some x \<Rightarrow> if \<bar>x\<bar> \<le> 1 then Some (arcsin x) else None),
       farctan2 = lift2 arctan2,
       fdeg2rad = map_option (\<lambda>x. x * pi / 180),
       frad2deg = map_option (\<lambda>x. x * 180 / pi),
       fgt = (\<lambda>a b. case a of None \<Rightarrow> False | Some x \<Rightarrow> (case b of None \<Rightarrow> False | Some y \<Rightarrow> y < x)) \<rparr>"

text \<open>
  The scenario of the specification: B0 = 0, L0 = 0, X0 = Y0 = 512, one arcsecond
  per pixel, a solar radius of 500, on an image of 1024 by 1024 pixels.
\<close>

definition scenario_data :: "real option ndarray" where
  "scenario_data = replicate 1024 (replicate 1024 (Some 0))"

definition scenario_map :: "real option sunpy_map" where
  "scenario_map =
     \<lparr> meta = [''B0'' \<mapsto> Some 0, ''L0'' \<mapsto> Some 0, ''X0'' \<mapsto> Some 512, ''Y0'' \<mapsto> Some 512],
       detector = ''HMI'',
       rsun_obs = Some 500,
       scale = (Some 1, Some 1),
       dimensions = (1024, 1024),
       data = scenario_data \<rparr>"

definition scenario :: "real option CRD" where
  "scenario = new_CRD scenario_map (Some 0) (Some 0) (Some 512) (Some 512) (Some 500)"

text \<open>
  A map of two by two pixels whose header has the long key names only, the disk
  centre on pixel (0, 0) and a solar radius of one arcsecond; and the same map
  without \<^verbatim>\<open>OBS_L0\<close>.
\<close>

definition small_map :: "real option sunpy_map" where
  "small_map =
     \<lparr> meta = [''OBS_B0'' \<mapsto> Some 0, ''OBS_L0'' \<mapsto> Some 0, ''IMG_X0'' \<mapsto> Some 0, ''IMG_Y0'' \<mapsto> Some 0],
       detector = ''HMI'',
       rsun_obs = Some 1,
       scale = (Some 1, Some 1),
       dimensions = (2, 2),
       data = [[Some 1, Some 2], [Some 3, Some 4]] \<rparr>"

definition small :: "real option CRD" where
  "small = new_CRD small_map (Some 0) (Some 0) (Some 0) (Some 0) (Some 1)"

definition headless_map :: "real option sunpy_map" where
  "headless_map = small_map \<lparr> meta := [''OBS_B0'' \<mapsto> Some 0, ''IMG_X0'' \<mapsto> Some 0, ''IMG_Y0'' \<mapsto> Some 0] \<rparr>"

section \<open>Theorems\<close>

subsection \<open>The constructor\<close>

lemma lookup2_Inl: "lookup2 m k1 k2 = Inl e \<longleftrightarrow> m k1 = None \<and> m k2 = None \<and> e = KeyError k2"
  by (auto simp: lookup2_def split: option.splits)

lemma lookup2_Inr: "lookup2 m k1 k2 = Inr v \<longleftrightarrow> first_found m k1 k2 = Some v"
  by (auto simp: lookup2_def first_found_def split: option.splits)

text \<open>
  C8. Each of the four fields is read under two header keys, the short one first;
  the constructor raises the KeyError of a field's second key exactly when the
  header holds neither key of some field, and a constructor that returns has
  taken each field from the first of its two keys that the header holds. (The
  error the specification calls MissingMetadataError is Python's KeyError.)
\<close>

theorem CRD_init_two_keys:
  "((\<exists>(k1, k2) \<in> set field_keys. CRD_init np im = Inl (KeyError k2))
      \<longleftrightarrow> (\<exists>(k1, k2) \<in> set field_keys. meta im k1 = None \<and> meta im k2 = None))
   \<and> (\<forall>c. CRD_init np im = Inr c \<longrightarrow>
          first_found (meta im) ''B0'' ''OBS_B0'' = Some (B0 c)
        \<and> first_found (meta im) ''L0'' ''OBS_L0'' = Some (L0 c)
        \<and> first_found (meta im) ''X0'' ''IMG_X0'' = Some (X0 c)
        \<and> first_found (meta im) ''Y0'' ''IMG_Y0'' = Some (Y0 c))"
proof (intro conjI allI impI)
  show "(\<exists>(k1, k2) \<in> set field_keys. CRD_init np im = Inl (KeyError k2))
      \<longleftrightarrow> (\<exists>(k1, k2) \<in> set field_keys. meta im k1 = None \<and> meta im k2 = None)"
    by (auto simp: field_keys_def CRD_init_def lookup2_def getitem_def
        split: sum.splits option.splits if_splits)
next
  fix c assume c: "CRD_init np im = Inr c"
  then show "first_found (meta im) ''B0'' ''OBS_B0'' = Some (B0 c)"
    by (auto simp: CRD_init_def lookup2_Inr new_CRD_def split: sum.splits if_splits)
  from c show "first_found (meta im) ''L0'' ''OBS_L0'' = Some (L0 c)"
    by (auto simp: CRD_init_def lookup2_Inr new_CRD_def split: sum.splits if_splits)
  from c show "first_found (meta im) ''X0'' ''IMG_X0'' = Some (X0 c)"
    by (auto simp: CRD_init_def lookup2_Inr new_CRD_def split: sum.splits if_splits)
  from c show "first_found (meta im) ''Y0'' ''IMG_Y0'' = Some (Y0 c)"
    by (auto simp: CRD_init_def lookup2_Inr new_CRD_def split: sum.splits if_splits)
qed

lemma CRD_init_small: "CRD_init np_exact small_map = Inr small"
  by (simp add: CRD_init_def small_map_def small_def lookup2_def)

lemma CRD_init_headless: "CRD_init np_exact headless_map = Inl (KeyError ''OBS_L0'')"
  by (simp add: CRD_init_def headless_map_def small_map_def lookup2_def)

theorem CRD_init_two_keys_witness:
  "(\<exists>(k1, k2) \<in> set field_keys. meta headless_map k1 = None \<and> meta headless_map k2 = None)
   \<and> (\<exists>(k1, k2) \<in> set field_keys. CRD_init np_exact headless_map = Inl (KeyError k2))
   \<and> CRD_init np_exact small_map = Inr small
   \<and> first_found (meta small_map) ''B0'' ''OBS_B0'' = Some (B0 small)
   \<and> first_found (meta small_map) ''L0'' ''OBS_L0'' = Some (L0 small)
   \<and> first_found (meta small_map) ''X0'' ''IMG_X0'' = Some (X0 small)
   \<and> first_found (meta small_map) ''Y0'' ''IMG_Y0'' = Some (Y0 small)"
proof -
  have missing: "\<exists>(k1, k2) \<in> set field_keys. meta headless_map k1 = None \<and> meta headless_map k2 = None"
    by (simp add: field_keys_def headless_map_def small_map_def)
  show ?thesis
    using missing CRD_init_two_keys [of np_exact headless_map]
      CRD_init_two_keys [of np_exact small_map] CRD_init_small
    by simp
qed


subsection \<open>Arrays\<close>

lemma shaped_amap: "shaped n m (amap f a) = shaped n m a"
  by (simp add: shaped_def amap_def list_all_iff)

lemma shaped_amap2: "shaped n m a \<Longrightarrow> shaped n m b \<Longrightarrow> shaped n m (amap2 f a b)"
  by (auto simp: shaped_def amap2_def list_all_iff dest!: set_zip_leftD set_zip_rightD
      elim!: in_set_zipE)

lemma shaped_nth: "shaped n m a \<Longrightarrow> i < n \<Longrightarrow> length (a ! i) = m"
  by (simp add: shaped_def list_all_length)

lemma nth_amap: "shaped n m a \<Longrightarrow> i < n \<Longrightarrow> j < m \<Longrightarrow> amap f a ! i ! j = f (a ! i ! j)"
  by (simp add: shaped_def amap_def list_all_length)

lemma nth_amap2:
  "shaped n m a \<Longrightarrow> shaped n m b \<Longrightarrow> i < n \<Longrightarrow> j < m \<Longrightarrow>
   amap2 f a b ! i ! j = f (a ! i ! j) (b ! i ! j)"
  by (simp add: shaped_def amap2_def list_all_length)

lemma shaped_update: "shaped n m a \<Longrightarrow> length r = m \<Longrightarrow> shaped n m (a[k := r])"
  using set_update_subset_insert[of a k r] by (auto simp: shaped_def list_all_iff)

lemma shaped_meshgrid:
  "shaped (length yrow) (length xrow) (fst (meshgrid xrow yrow))"
  "shaped (length yrow) (length xrow) (snd (meshgrid xrow yrow))"
  by (simp_all add: shaped_def meshgrid_def list_all_iff)

lemma nth_meshgrid:
  "i < length yrow \<Longrightarrow> j < length xrow \<Longrightarrow> fst (meshgrid xrow yrow) ! i ! j = xrow ! j"
  "i < length yrow \<Longrightarrow> j < length xrow \<Longrightarrow> snd (meshgrid xrow yrow) ! i ! j = yrow ! i"
  by (simp_all add: meshgrid_def)

lemma take_rows_where_True:
  "take_rows a where_True = (if a = [] then Inl IndexError else Inr [a ! 0])"
  by (simp add: take_rows_def where_True_def)

lemma put_rows_where_True: "put_rows a where_True [r] = a[0 := r]"
  by (simp add: put_rows_def where_True_def)

lemma amap2_single: "amap2 f [u] [v] = [map (\<lambda>(x, y). f x y) (zip u v)]"
  by (simp add: amap2_def)

lemma amap_single: "amap f [u] = [map f u]"
  by (simp add: amap_def)

lemma shaped_clamp: "shaped n m (clamp np c a) = shaped n m a"
  by (simp add: clamp_def shaped_amap)

lemma shaped_nonempty: "shaped n m a \<Longrightarrow> 0 < n \<Longrightarrow> a \<noteq> []"
  by (auto simp: shaped_def)

lemma to_sphere_returns:
  assumes "shaped n m phi" "shaped n m rat2" "0 < n"
  shows "\<exists>hgln hglt. to_sphere np radius phi rat2 = Inr (hgln, hglt)
           \<and> shaped n m hgln \<and> shaped n m hglt"
  using assms
  by (simp add: to_sphere_def take_rows_where_True shaped_nonempty put_rows_where_True
      amap_single Let_def shaped_amap shaped_amap2 shaped_update shaped_nth)

lemma transform_returns:
  assumes "shaped n m x" "shaped n m y" "0 < n"
  shows "\<exists>hgln hglt. transform np radius x y = Inr (hgln, hglt)
           \<and> shaped n m hgln \<and> shaped n m hglt"
proof -
  let ?xxat = "amap (\<lambda>v. ftan np (fdeg2rad np (fdiv np v (fof_int np 60)))) x"
  let ?yyat = "amap (\<lambda>v. ftan np (fdeg2rad np (fdiv np v (fof_int np 60)))) y"
  let ?rat2 = "amap2 (fadd np) (amap (fsq np) ?xxat) (amap (fsq np) ?yyat)"
  let ?phi = "(amap (fmul np (fof_int np 0)) ?rat2)[0 := map (\<lambda>(u, v). farctan2 np u v) (zip (?xxat ! 0) (?yyat ! 0))]"
  have sx: "shaped n m ?xxat" and sy: "shaped n m ?yyat"
    using assms by (simp_all add: shaped_amap)
  have sr: "shaped n m ?rat2"
    using sx sy by (simp add: shaped_amap shaped_amap2)
  have sp: "shaped n m ?phi"
    using sr sx sy assms(3) by (simp add: shaped_update shaped_amap shaped_nth)
  have "transform np radius x y = to_sphere np radius ?phi (clamp np (max_rat2 np radius) ?rat2)"
    using sx sy assms(3)
    by (simp add: transform_def Let_def take_rows_where_True shaped_nonempty
        put_rows_where_True amap2_single)
  then show ?thesis
    using to_sphere_returns[OF sp _ assms(3), of "clamp np (max_rat2 np radius) ?rat2" np radius] sr
    by (simp add: shaped_clamp)
qed

lemma transform_empty: "transform np radius [] y = Inl IndexError"
  by (simp add: transform_def Let_def take_rows_where_True amap_def)

subsection \<open>heliographic\<close>

lemma transform_point_raises: "transform_point np radius x y = Inl IndexError"
  by (simp add: transform_point_def take_scalar_def Let_def)

lemma heliographic_point_raises: "heliographic_point np s row rest = (s, Inl IndexError)"
  by (simp add: heliographic_point_def transform_point_raises split: list.split prod.split)

lemma length_pixel_rows:
  "length (fst (pixel_rows np s rest)) = xdim s"
  "length (snd (pixel_rows np s rest)) = ydim s"
  by (simp_all add: pixel_rows_def split: list.split)

lemma pixel_rows_same_inputs:
  "same_inputs s s' \<Longrightarrow> pixel_rows np s' rest = pixel_rows np s rest"
  by (simp add: same_inputs_def pixel_rows_def xScl_def yScl_def xdim_def ydim_def split: list.split)

text \<open>The array call in three parts: what it stores in any case, what it returns, and
  what it stores on a first call that returns.\<close>

lemma heliographic_grid_parts:
  "heliographic_grid np s rest =
     (let gx = fst (meshgrid (fst (pixel_rows np s rest)) (snd (pixel_rows np s rest)));
          gy = snd (meshgrid (fst (pixel_rows np s rest)) (snd (pixel_rows np s rest)));
          s1 = s\<lparr> xg := Some gx, yg := Some gy,
                  rg := Some (amap (fsqrt np) (amap2 (fadd np) (amap (fsq np) gx) (amap (fsq np) gy))) \<rparr>
      in case transform np (rsun s) gx (amap (fneg np) gy) of
           Inl e \<Rightarrow> (s1, Inl e)
         | Inr p \<Rightarrow>
             (if lonh s = None
              then s1\<lparr> lonh := Some (amap (frad2deg np) (fst p)), lath := Some (amap (frad2deg np) (snd p)) \<rparr>
              else s1,
              Inr (amap (frad2deg np) (fst p), amap (frad2deg np) (snd p))))"
  by (simp add: heliographic_grid_def Let_def split: prod.split sum.split)

lemma heliographic_grid_returns:
  assumes "0 < ydim s"
  shows "\<exists>lon lat. snd (heliographic_grid np s rest) = Inr (lon, lat)
           \<and> shaped (ydim s) (xdim s) lon \<and> shaped (ydim s) (xdim s) lat"
proof -
  let ?xrow = "fst (pixel_rows np s rest)" and ?yrow = "snd (pixel_rows np s rest)"
  let ?gx = "fst (meshgrid ?xrow ?yrow)" and ?gy = "snd (meshgrid ?xrow ?yrow)"
  have sx: "shaped (ydim s) (xdim s) ?gx" and sy: "shaped (ydim s) (xdim s) (amap (fneg np) ?gy)"
    using shaped_meshgrid[of ?yrow ?xrow] by (simp_all add: length_pixel_rows shaped_amap)
  from transform_returns[OF sx sy assms, of np "rsun s"]
  obtain hgln hglt where t: "transform np (rsun s) ?gx (amap (fneg np) ?gy) = Inr (hgln, hglt)"
    and sh: "shaped (ydim s) (xdim s) hgln" "shaped (ydim s) (xdim s) hglt"
    by blast
  show ?thesis
    using t sh by (simp add: heliographic_grid_parts Let_def shaped_amap)
qed

lemma heliographic_grid_raises:
  assumes "ydim s = 0"
  shows "snd (heliographic_grid np s rest) = Inl IndexError"
proof -
  have "snd (pixel_rows np s rest) = []"
    using length_pixel_rows(2)[of np s rest] assms by simp
  then show ?thesis
    by (simp add: heliographic_grid_parts Let_def meshgrid_def transform_empty)
qed

lemma heliographic_grid_same_inputs: "same_inputs s (fst (heliographic_grid np s rest))"
  by (simp add: heliographic_grid_parts Let_def same_inputs_def split: sum.split)

lemma heliographic_grid_result_inputs:
  assumes "same_inputs s s'"
  shows "snd (heliographic_grid np s' rest) = snd (heliographic_grid np s rest)"
proof -
  have r: "rsun s' = rsun s" using assms by (simp add: same_inputs_def)
  show ?thesis
    by (simp add: heliographic_grid_parts Let_def pixel_rows_same_inputs[OF assms] r split: sum.split)
qed

lemma heliographic_grid_cache_kept:
  "lonh s \<noteq> None \<Longrightarrow> lonh (fst (heliographic_grid np s rest)) = lonh s
     \<and> lath (fst (heliographic_grid np s rest)) = lath s"
  by (cases "lonh s") (simp_all add: heliographic_grid_parts Let_def split: sum.split)

lemma heliographic_grid_first_call:
  "lonh s = None \<Longrightarrow> heliographic_grid np s rest = (s', Inr (lon, lat)) \<Longrightarrow>
   lonh s' = Some lon \<and> lath s' = Some lat"
  by (auto simp: heliographic_grid_parts Let_def split: sum.splits)

lemma heliographic_grid_no_cache_on_error:
  "heliographic_grid np s rest = (s', Inl e) \<Longrightarrow> lonh s' = lonh s \<and> lath s' = lath s"
  by (auto simp: heliographic_grid_parts Let_def split: sum.splits)

lemma heliographic_grid_others_kept:
  "im_corr (fst (heliographic_grid np s rest)) = im_corr s"
  "area (fst (heliographic_grid np s rest)) = area s"
  "mgnt_flux (fst (heliographic_grid np s rest)) = mgnt_flux s"
  by (simp_all add: heliographic_grid_parts Let_def split: sum.split)

lemma heliographic_grid_rg:
  assumes "i < ydim s" "j < xdim s"
  shows "\<exists>g. rg (fst (heliographic_grid np s [dx, dy])) = Some g \<and> shaped (ydim s) (xdim s) g
           \<and> g ! i ! j = radial_distance np s dx dy i j"
proof -
  let ?xrow = "fst (pixel_rows np s [dx, dy])" and ?yrow = "snd (pixel_rows np s [dx, dy])"
  let ?gx = "fst (meshgrid ?xrow ?yrow)" and ?gy = "snd (meshgrid ?xrow ?yrow)"
  let ?g = "amap (fsqrt np) (amap2 (fadd np) (amap (fsq np) ?gx) (amap (fsq np) ?gy))"
  have sx: "shaped (ydim s) (xdim s) ?gx" and sy: "shaped (ydim s) (xdim s) ?gy"
    using shaped_meshgrid[of ?yrow ?xrow] by (simp_all add: length_pixel_rows)
  have rgs: "rg (fst (heliographic_grid np s [dx, dy])) = Some ?g"
    by (simp add: heliographic_grid_parts Let_def split: sum.split)
  have sg: "shaped (ydim s) (xdim s) ?g"
    using sx sy by (simp add: shaped_amap shaped_amap2)
  have gxij: "?gx ! i ! j = fmul np (fadd np (fsub np (fof_int np (int j)) (X0 s)) dx) (xScl s)"
    using assms by (simp add: nth_meshgrid length_pixel_rows) (simp add: pixel_rows_def)
  have gyij: "?gy ! i ! j = fmul np (fadd np (fsub np (fof_int np (int i)) (Y0 s)) dy) (yScl s)"
    using assms by (simp add: nth_meshgrid length_pixel_rows) (simp add: pixel_rows_def)
  have "?g ! i ! j = radial_distance np s dx dy i j"
    using assms sx sy
    by (simp add: nth_amap[of "ydim s" "xdim s"] nth_amap2[of "ydim s" "xdim s"]
        shaped_amap shaped_amap2 gxij gyij radial_distance_def)
  with rgs sg show ?thesis by blast
qed

subsection \<open>Pixel calls\<close>

text \<open>
  C1. The claim: \<^verbatim>\<open>heliographic\<close> returns for every input, a pixel or an array.
  The code: every pixel call raises IndexError, at line 101 when the column is
  missing and at line 114 otherwise, where the numpy scalar \<^verbatim>\<open>xxat\<close> is indexed
  with \<^verbatim>\<open>np.where(True)\<close>. The docstring gives \<^verbatim>\<open>aia.heliographic(320, 288)\<close>
  as an example of use.
\<close>

theorem heliographic_pixel_call_raises:
  "snd (heliographic np s (Scalar row, rest)) = Inl IndexError"
  by (simp add: heliographic_def heliographic_point_raises)

text \<open>
  C5. The claim: the pixel call at the disk centre (row \<open>Y0\<close>, column \<open>X0\<close>) returns
  about (0, 0), also in the scenario of the specification at pixel (512, 512).
  The code: both calls raise IndexError, as every pixel call does.
\<close>

theorem heliographic_disk_centre_raises:
  "snd (heliographic np s (Scalar (Y0 s), [X0 s])) = Inl IndexError
   \<and> snd (heliographic np_exact scenario (Scalar (Some 512), [Some 512])) = Inl IndexError"
  by (simp add: heliographic_def heliographic_point_raises)

text \<open>
  C4. The claim: for every pixel the array call and the pixel call compute the
  same longitude and latitude, both from the offsets divided by 60. The code,
  for row \<open>i\<close> and column \<open>j\<close> of the image: the pixel call raises IndexError while
  the array call returns two arrays; and the array call takes
  \<open>(j - X0) * xScl\<close> for the cell where the pixel call takes \<open>(j - X0) * xScl / 60\<close>.
\<close>

theorem heliographic_grid_and_point_differ:
  assumes "i < ydim s" "j < xdim s"
  shows "snd (heliographic np s (Scalar (fof_int np (int i)), [fof_int np (int j)])) = Inl IndexError
       \<and> (\<exists>lon lat. snd (heliographic np s (NDArray d, [])) = Inr (Arr2 lon lat))
       \<and> (\<exists>g. xg (fst (heliographic np s (NDArray d, []))) = Some g
              \<and> g ! i ! j = fmul np (fsub np (fof_int np (int j)) (X0 s)) (xScl s))
       \<and> fst (point_offsets np s (fof_int np (int i)) (fof_int np (int j)))
           = fdiv np (fmul np (fsub np (fof_int np (int j)) (X0 s)) (xScl s)) (fof_int np 60)"
proof (intro conjI)
  show "snd (heliographic np s (Scalar (fof_int np (int i)), [fof_int np (int j)])) = Inl IndexError"
    by (simp add: heliographic_def heliographic_point_raises)
next
  from heliographic_grid_returns[of s np "[]"] assms(1)
  obtain lon lat where "snd (heliographic_grid np s []) = Inr (lon, lat)" by auto
  then show "\<exists>lon lat. snd (heliographic np s (NDArray d, [])) = Inr (Arr2 lon lat)"
    by (cases "heliographic_grid np s []") (simp add: heliographic_def)
next
  let ?xrow = "fst (pixel_rows np s [])" and ?yrow = "snd (pixel_rows np s [])"
  let ?gx = "fst (meshgrid ?xrow ?yrow)"
  have st: "xg (fst (heliographic np s (NDArray d, []))) = xg (fst (heliographic_grid np s []))"
    by (simp add: heliographic_def split: prod.split sum.split)
  have "xg (fst (heliographic_grid np s [])) = Some ?gx"
    by (simp add: heliographic_grid_parts Let_def split: sum.split)
  moreover have "?gx ! i ! j = fmul np (fsub np (fof_int np (int j)) (X0 s)) (xScl s)"
    using assms by (simp add: nth_meshgrid length_pixel_rows) (simp add: pixel_rows_def)
  ultimately show "\<exists>g. xg (fst (heliographic np s (NDArray d, []))) = Some g
              \<and> g ! i ! j = fmul np (fsub np (fof_int np (int j)) (X0 s)) (xScl s)"
    using st by simp
next
  show "fst (point_offsets np s (fof_int np (int i)) (fof_int np (int j)))
           = fdiv np (fmul np (fsub np (fof_int np (int j)) (X0 s)) (xScl s)) (fof_int np 60)"
    by (simp add: point_offsets_def)
qed

lemma small_fields:
  "xdim small = 2" "ydim small = 2" "X0 small = Some 0" "Y0 small = Some 0"
  "xScl small = Some 1" "yScl small = Some 1" "rsun small = Some 1" "lonh small = None"
  "area small = None"
  by (simp_all add: small_def new_CRD_def small_map_def xdim_def ydim_def xScl_def yScl_def)

theorem heliographic_grid_and_point_differ_witness:
  "(0::nat) < ydim small \<and> (1::nat) < xdim small
   \<and> snd (heliographic np_exact small (Scalar (Some 0), [Some 1])) = Inl IndexError
   \<and> (\<exists>lon lat. snd (heliographic np_exact small (NDArray (data small_map), [])) = Inr (Arr2 lon lat))
   \<and> (\<exists>g. xg (fst (heliographic np_exact small (NDArray (data small_map), []))) = Some g
          \<and> g ! 0 ! 1 = Some 1)
   \<and> fst (point_offsets np_exact small (Some 0) (Some 1)) = Some (1 / 60)"
  using heliographic_grid_and_point_differ [of 0 small 1 np_exact "data small_map"]
  by (simp add: small_fields np_exact_def lift2_def)

text \<open>
  C2. The claim: \<^verbatim>\<open>los_corr\<close> returns the raw intensity divided by the
  correction factor. The code: no call returns. A pixel call raises the
  IndexError of \<^verbatim>\<open>heliographic\<close>, an array call on an image without rows
  likewise, and every other array call raises NameError at line 160, which
  reads \<^verbatim>\<open>B0\<close> where the attribute is \<^verbatim>\<open>self.B0\<close>.
\<close>

theorem los_corr_raises:
  "snd (los_corr np s args) =
     Inl (case fst args of
            NDArray d \<Rightarrow> if ydim s = 0 then IndexError else NameError ''B0''
          | Scalar row \<Rightarrow> IndexError)"
proof (cases "fst args")
  case (NDArray d)
  show ?thesis
  proof (cases "ydim s = 0")
    case True
    with heliographic_grid_raises[of s np "[]"] NDArray show ?thesis
      by (cases "heliographic_grid np s []") (simp add: los_corr_def los_corr_grid_def)
  next
    case False
    with heliographic_grid_returns[of s np "[]"]
    obtain lon lat where "snd (heliographic_grid np s []) = Inr (lon, lat)" by auto
    with False NDArray show ?thesis
      by (cases "heliographic_grid np s []") (simp add: los_corr_def los_corr_grid_def)
  qed
next
  case (Scalar row)
  then show ?thesis
    by (simp add: los_corr_def los_corr_point_def heliographic_point_raises split: list.split)
qed

text \<open>
  C3. The claim: \<^verbatim>\<open>magnetic_flux\<close> returns the product of the area and the
  corrected field. The code: no call returns and \<^verbatim>\<open>self.mgnt_flux\<close> is never
  written; line 239 calls \<^verbatim>\<open>self.area\<close>, which is no method of the class, and
  raises AttributeError, or TypeError once \<^verbatim>\<open>eoa\<close> has stored an array under
  that name.
\<close>

theorem magnetic_flux_raises:
  "fst (magnetic_flux np s args) = s
   \<and> snd (magnetic_flux np s args) =
       Inl (if area s = None then AttributeError ''area'' else TypeError)"
  by (simp add: magnetic_flux_def split: option.split)

lemma eoa_point_raises: "eoa_point np s x rest = (s, Inl IndexError)"
  by (simp add: eoa_point_def heliographic_point_raises split: list.split)

text \<open>
  C10. A pixel call of \<^verbatim>\<open>heliographic\<close>, \<^verbatim>\<open>los_corr\<close> or \<^verbatim>\<open>eoa\<close> returns the
  object as it was: no field is written, the cached arrays included.
\<close>

theorem pixel_calls_write_nothing:
  "fst (heliographic np s (Scalar row, rest)) = s
   \<and> fst (los_corr np s (Scalar row, rest)) = s
   \<and> fst (eoa np s (Scalar row, rest)) = s"
  by (simp add: heliographic_def los_corr_def eoa_def heliographic_point_raises
      los_corr_point_def eoa_point_raises split: list.split)

subsection \<open>What the calls keep\<close>

lemma same_inputs_refl: "same_inputs s s"
  by (simp add: same_inputs_def)

lemma same_inputs_trans: "same_inputs s s' \<Longrightarrow> same_inputs s' s'' \<Longrightarrow> same_inputs s s''"
  by (simp add: same_inputs_def)

lemma same_inputs_area: "same_inputs s s' \<Longrightarrow> same_inputs s (s'\<lparr> area := a \<rparr>)"
  by (simp add: same_inputs_def)

text \<open>A property of the object that every array call of \<^verbatim>\<open>heliographic\<close> keeps, and
  that does not depend on \<^verbatim>\<open>self.area\<close>, is kept by the array call of \<^verbatim>\<open>eoa\<close>.\<close>

lemma eoa_grid_keeps:
  assumes hg: "\<And>t rest. P t \<Longrightarrow> P (fst (heliographic_grid np t rest))"
    and ar: "\<And>t a. P t \<Longrightarrow> P (t\<lparr> area := a \<rparr>)"
    and "P s"
  shows "P (fst (eoa_grid np s))"
proof -
  let ?h = "fhalf np" and ?m = "fneg np (fhalf np)"
  obtain s1 r1 where c1: "heliographic_grid np s [?m, ?m] = (s1, r1)" by (cases "heliographic_grid np s [?m, ?m]")
  obtain s2 r2 where c2: "heliographic_grid np s1 [?h, ?m] = (s2, r2)" by (cases "heliographic_grid np s1 [?h, ?m]")
  obtain s3 r3 where c3: "heliographic_grid np s2 [?h, ?h] = (s3, r3)" by (cases "heliographic_grid np s2 [?h, ?h]")
  obtain s4 r4 where c4: "heliographic_grid np s3 [?m, ?h] = (s4, r4)" by (cases "heliographic_grid np s3 [?m, ?h]")
  have p1: "P s1" using hg[OF \<open>P s\<close>, of "[?m, ?m]"] c1 by simp
  have p2: "P s2" using hg[OF p1, of "[?h, ?m]"] c2 by simp
  have p3: "P s3" using hg[OF p2, of "[?h, ?h]"] c3 by simp
  have p4: "P s4" using hg[OF p3, of "[?m, ?h]"] c4 by simp
  show ?thesis
    using c1 c2 c3 c4 p1 p2 p3 p4 ar[OF p4]
    by (simp add: eoa_grid_def Let_def split: sum.split option.split prod.split)
qed

lemma eoa_grid_same_inputs: "same_inputs s (fst (eoa_grid np s))"
  by (rule eoa_grid_keeps[where P = "same_inputs s"])
     (auto intro: same_inputs_trans heliographic_grid_same_inputs same_inputs_area same_inputs_refl)

lemma eoa_grid_cache_kept:
  fixes s :: "'f CRD"
  assumes "lonh s \<noteq> None"
  shows "lonh (fst (eoa_grid np s)) = lonh s \<and> lath (fst (eoa_grid np s)) = lath s"
proof (rule eoa_grid_keeps[where P = "\<lambda>t. lonh t = lonh s \<and> lath t = lath s"])
  fix t :: "'f CRD" and rest
  assume t: "lonh t = lonh s \<and> lath t = lath s"
  then have "lonh t \<noteq> None" using assms by simp
  from heliographic_grid_cache_kept[OF this, of np rest] t
  show "lonh (fst (heliographic_grid np t rest)) = lonh s
          \<and> lath (fst (heliographic_grid np t rest)) = lath s"
    by simp
qed simp_all

lemma after_call_same_inputs: "same_inputs s (after_call np s c)"
proof (cases c)
  case (Heliographic args)
  then show ?thesis
    using heliographic_grid_same_inputs[of s np "snd args"]
    by (cases "heliographic_grid np s (snd args)")
       (simp add: heliographic_def heliographic_point_raises same_inputs_refl
          split: pyarg.split sum.split prod.split)
next
  case (Los_corr args)
  then show ?thesis
    using heliographic_grid_same_inputs[of s np "[]"]
    by (cases "heliographic_grid np s []")
       (simp add: los_corr_def los_corr_grid_def los_corr_point_def heliographic_point_raises
          same_inputs_refl split: pyarg.split sum.split prod.split list.split)
next
  case (Eoa args)
  then show ?thesis
    using eoa_grid_same_inputs[of s np]
    by (cases "eoa_grid np s")
       (simp add: eoa_def eoa_point_raises same_inputs_refl split: pyarg.split sum.split)
next
  case (Magnetic_flux args)
  then show ?thesis
    by (simp add: magnetic_flux_def same_inputs_refl split: option.split)
qed

lemma after_call_cache_kept:
  assumes "lonh s \<noteq> None"
  shows "lonh (after_call np s c) = lonh s \<and> lath (after_call np s c) = lath s"
proof (cases c)
  case (Heliographic args)
  then show ?thesis
    using heliographic_grid_cache_kept[OF assms, of np "snd args"]
    by (cases "heliographic_grid np s (snd args)")
       (simp add: heliographic_def heliographic_point_raises
          split: pyarg.split sum.split prod.split)
next
  case (Los_corr args)
  then show ?thesis
    using heliographic_grid_cache_kept[OF assms, of np "[]"]
    by (cases "heliographic_grid np s []")
       (simp add: los_corr_def los_corr_grid_def los_corr_point_def heliographic_point_raises
          split: pyarg.split sum.split prod.split list.split)
next
  case (Eoa args)
  then show ?thesis
    using eoa_grid_cache_kept[OF assms, of np]
    by (cases "eoa_grid np s")
       (simp add: eoa_def eoa_point_raises split: pyarg.split sum.split)
next
  case (Magnetic_flux args)
  then show ?thesis
    by (simp add: magnetic_flux_def split: option.split)
qed

lemma after_calls_same_inputs: "same_inputs s (after_calls np s cs)"
  unfolding after_calls_def
proof (induction cs arbitrary: s)
  case Nil
  show ?case by (simp add: same_inputs_refl)
next
  case (Cons c cs)
  show ?case
    using same_inputs_trans[OF after_call_same_inputs[of s np c] Cons.IH[of "after_call np s c"]]
    by simp
qed

lemma after_calls_cache_kept:
  "lonh s \<noteq> None \<Longrightarrow>
   lonh (after_calls np s cs) = lonh s \<and> lath (after_calls np s cs) = lath s"
  unfolding after_calls_def
proof (induction cs arbitrary: s)
  case Nil
  show ?case by simp
next
  case (Cons c cs)
  have k: "lonh (after_call np s c) = lonh s \<and> lath (after_call np s c) = lath s"
    using after_call_cache_kept[OF Cons.prems] .
  then have "lonh (after_call np s c) \<noteq> None" using Cons.prems by simp
  from Cons.IH[OF this] k show ?case by simp
qed

lemma heliographic_array_result_inputs:
  assumes "same_inputs s s'"
  shows "snd (heliographic np s' (NDArray d', rest)) = snd (heliographic np s (NDArray d, rest))"
  using heliographic_grid_result_inputs[OF assms, of np rest]
  by (cases "heliographic_grid np s rest"; cases "heliographic_grid np s' rest")
     (auto simp: heliographic_def split: sum.splits)

text \<open>
  C9. An array call of \<^verbatim>\<open>heliographic\<close> on an object without \<^verbatim>\<open>lonh\<close> stores
  the two arrays it returns as \<^verbatim>\<open>lonh\<close> and \<^verbatim>\<open>lath\<close>; once \<^verbatim>\<open>lonh\<close> is there,
  no sequence of calls of the four methods changes \<^verbatim>\<open>lonh\<close> or \<^verbatim>\<open>lath\<close>; and
  an array call without offsets returns after any sequence of calls what it
  returned before them.
\<close>

theorem heliographic_cache_first_call_wins:
  "(lonh s = None \<longrightarrow> heliographic np s (NDArray d, rest) = (s', Inr (Arr2 lon lat)) \<longrightarrow>
      lonh s' = Some lon \<and> lath s' = Some lat)
   \<and> (lonh s \<noteq> None \<longrightarrow>
        lonh (after_calls np s cs) = lonh s \<and> lath (after_calls np s cs) = lath s)
   \<and> snd (heliographic np (after_calls np s cs) (NDArray d', [])) = snd (heliographic np s (NDArray d, []))"
proof (intro conjI impI)
  assume "lonh s = None" and c: "heliographic np s (NDArray d, rest) = (s', Inr (Arr2 lon lat))"
  from c have "heliographic_grid np s rest = (s', Inr (lon, lat))"
    by (cases "heliographic_grid np s rest") (auto simp: heliographic_def split: sum.splits)
  from heliographic_grid_first_call[OF \<open>lonh s = None\<close> this]
  show "lonh s' = Some lon" and "lath s' = Some lat" by simp_all
next
  assume "lonh s \<noteq> None"
  from after_calls_cache_kept[OF this, of np cs]
  show "lonh (after_calls np s cs) = lonh s" and "lath (after_calls np s cs) = lath s" by simp_all
next
  show "snd (heliographic np (after_calls np s cs) (NDArray d', [])) = snd (heliographic np s (NDArray d, []))"
    by (rule heliographic_array_result_inputs[OF after_calls_same_inputs])
qed


theorem heliographic_cache_first_call_wins_witness:
  "\<exists>s' lon lat.
     lonh small = None
     \<and> heliographic np_exact small (NDArray (data small_map), []) = (s', Inr (Arr2 lon lat))
     \<and> lonh s' = Some lon \<and> lath s' = Some lat
     \<and> lonh s' \<noteq> None
     \<and> lonh (after_calls np_exact s'
               [Eoa (NDArray (data small_map), []),
                Heliographic (NDArray (data small_map), [Some 1, Some 1])]) = lonh s'
     \<and> lath (after_calls np_exact s'
               [Eoa (NDArray (data small_map), []),
                Heliographic (NDArray (data small_map), [Some 1, Some 1])]) = lath s'
     \<and> snd (heliographic np_exact
               (after_calls np_exact s'
                  [Eoa (NDArray (data small_map), []),
                   Heliographic (NDArray (data small_map), [Some 1, Some 1])])
               (NDArray (data small_map), []))
         = snd (heliographic np_exact s' (NDArray (data small_map), []))"
proof -
  let ?d = "data small_map"
  let ?cs = "[Eoa (NDArray ?d, []), Heliographic (NDArray ?d, [Some 1, Some 1])]"
  from heliographic_grid_returns[of small np_exact "[]"]
  obtain lon lat where "snd (heliographic_grid np_exact small []) = Inr (lon, lat)"
    by (auto simp: small_fields)
  then obtain s' where c: "heliographic np_exact small (NDArray ?d, []) = (s', Inr (Arr2 lon lat))"
    by (cases "heliographic_grid np_exact small []") (simp add: heliographic_def)
  have first: "lonh s' = Some lon \<and> lath s' = Some lat"
    using heliographic_cache_first_call_wins
      [where s = small and np = np_exact and d = ?d and rest = "[]" and s' = s'
         and lon = lon and lat = lat] c
    by (simp add: small_fields)
  then have "lonh s' \<noteq> None" by simp
  with heliographic_cache_first_call_wins
      [where s = s' and np = np_exact and d = ?d and d' = ?d and cs = ?cs]
  have "lonh (after_calls np_exact s' ?cs) = lonh s'
        \<and> lath (after_calls np_exact s' ?cs) = lath s'
        \<and> snd (heliographic np_exact (after_calls np_exact s' ?cs) (NDArray ?d, []))
            = snd (heliographic np_exact s' (NDArray ?d, []))"
    by simp
  with c first show ?thesis
    by (auto simp: small_fields)
qed

subsection \<open>The array call of eoa\<close>

lemma shaped_cells:
  "shaped n m (fst p) \<Longrightarrow> shaped n m (snd p) \<Longrightarrow> shaped n m (cells p)"
  by (simp add: cells_def shaped_amap2)

lemma nth_cells:
  "shaped n m (fst p) \<Longrightarrow> shaped n m (snd p) \<Longrightarrow> i < n \<Longrightarrow> j < m \<Longrightarrow>
   cells p ! i ! j = (fst p ! i ! j, snd p ! i ! j)"
  by (simp add: cells_def nth_amap2[of n m])

lemma shaped_amap4:
  "shaped n m a \<Longrightarrow> shaped n m b \<Longrightarrow> shaped n m c \<Longrightarrow> shaped n m d \<Longrightarrow>
   shaped n m (amap4 f a b c d)"
  by (simp add: amap4_def shaped_amap2)

lemma nth_amap4:
  "shaped n m a \<Longrightarrow> shaped n m b \<Longrightarrow> shaped n m c \<Longrightarrow> shaped n m d \<Longrightarrow> i < n \<Longrightarrow> j < m \<Longrightarrow>
   amap4 f a b c d ! i ! j = f (a ! i ! j) (b ! i ! j) (c ! i ! j) (d ! i ! j)"
  by (simp add: amap4_def nth_amap2[of n m] shaped_amap2)

lemma nth_mask_off_disk:
  "shaped n m a \<Longrightarrow> shaped n m g \<Longrightarrow> i < n \<Longrightarrow> j < m \<Longrightarrow>
   mask_off_disk np r a g ! i ! j = (if fgt np (g ! i ! j) r then fnan np else a ! i ! j)"
  by (simp add: mask_off_disk_def nth_amap2[of n m])

lemma heliographic_grid_rg_inputs:
  assumes "same_inputs s s'"
  shows "rg (fst (heliographic_grid np s' rest)) = rg (fst (heliographic_grid np s rest))"
  by (simp add: heliographic_grid_parts Let_def pixel_rows_same_inputs[OF assms] split: sum.split)

text \<open>The array call of \<^verbatim>\<open>eoa\<close> on an image with a row, in terms of four array
  calls of \<^verbatim>\<open>heliographic\<close> on the object as it was before the call.\<close>

lemma eoa_grid_result:
  assumes "0 < ydim s"
  shows "\<exists>UL LL LR UR g.
      snd (heliographic_grid np s [fneg np (fhalf np), fneg np (fhalf np)]) = Inr UL
    \<and> snd (heliographic_grid np s [fhalf np, fneg np (fhalf np)]) = Inr LL
    \<and> snd (heliographic_grid np s [fhalf np, fhalf np]) = Inr LR
    \<and> snd (heliographic_grid np s [fneg np (fhalf np), fhalf np]) = Inr UR
    \<and> rg (fst (heliographic_grid np s [fneg np (fhalf np), fhalf np])) = Some g
    \<and> snd (eoa_grid np s) =
        Inr (mask_off_disk np (rsun s)
               (amap4 (pixel_area np) (cells UL) (cells LL) (cells LR) (cells UR)) g)
    \<and> area (fst (eoa_grid np s)) =
        Some (mask_off_disk np (rsun s)
               (amap4 (pixel_area np) (cells UL) (cells LL) (cells LR) (cells UR)) g)
    \<and> rg (fst (eoa_grid np s)) = Some g"
proof -
  let ?h = "fhalf np" and ?m = "fneg np (fhalf np)"
  obtain s1 r1 where c1: "heliographic_grid np s [?m, ?m] = (s1, r1)" by (cases "heliographic_grid np s [?m, ?m]")
  obtain s2 r2 where c2: "heliographic_grid np s1 [?h, ?m] = (s2, r2)" by (cases "heliographic_grid np s1 [?h, ?m]")
  obtain s3 r3 where c3: "heliographic_grid np s2 [?h, ?h] = (s3, r3)" by (cases "heliographic_grid np s2 [?h, ?h]")
  obtain s4 r4 where c4: "heliographic_grid np s3 [?m, ?h] = (s4, r4)" by (cases "heliographic_grid np s3 [?m, ?h]")
  have i1: "same_inputs s s1" using heliographic_grid_same_inputs[of s np "[?m, ?m]"] c1 by simp
  have "same_inputs s1 s2" using heliographic_grid_same_inputs[of s1 np "[?h, ?m]"] c2 by simp
  with i1 have i2: "same_inputs s s2" by (rule same_inputs_trans)
  have "same_inputs s2 s3" using heliographic_grid_same_inputs[of s2 np "[?h, ?h]"] c3 by simp
  with i2 have i3: "same_inputs s s3" by (rule same_inputs_trans)
  have "same_inputs s3 s4" using heliographic_grid_same_inputs[of s3 np "[?m, ?h]"] c4 by simp
  with i3 have i4: "same_inputs s s4" by (rule same_inputs_trans)
  have e1: "snd (heliographic_grid np s [?m, ?m]) = r1" using c1 by simp
  have e2: "snd (heliographic_grid np s [?h, ?m]) = r2"
    using heliographic_grid_result_inputs[OF i1, of np "[?h, ?m]"] c2 by simp
  have e3: "snd (heliographic_grid np s [?h, ?h]) = r3"
    using heliographic_grid_result_inputs[OF i2, of np "[?h, ?h]"] c3 by simp
  have e4: "snd (heliographic_grid np s [?m, ?h]) = r4"
    using heliographic_grid_result_inputs[OF i3, of np "[?m, ?h]"] c4 by simp
  have g4: "rg (fst (heliographic_grid np s [?m, ?h])) = rg s4"
    using heliographic_grid_rg_inputs[OF i3, of np "[?m, ?h]"] c4 by simp
  obtain UL where u1: "r1 = Inr UL" using heliographic_grid_returns[OF assms, of np "[?m, ?m]"] e1 by auto
  obtain LL where u2: "r2 = Inr LL" using heliographic_grid_returns[OF assms, of np "[?h, ?m]"] e2 by auto
  obtain LR where u3: "r3 = Inr LR" using heliographic_grid_returns[OF assms, of np "[?h, ?h]"] e3 by auto
  obtain UR where u4: "r4 = Inr UR" using heliographic_grid_returns[OF assms, of np "[?m, ?h]"] e4 by auto
  obtain g where g: "rg s4 = Some g"
    using c4 by (auto simp: heliographic_grid_parts Let_def split: sum.splits if_splits)
  have r: "rsun s4 = rsun s" using i4 by (simp add: same_inputs_def)
  have "eoa_grid np s =
          (s4\<lparr> area := Some (mask_off_disk np (rsun s)
               (amap4 (pixel_area np) (cells UL) (cells LL) (cells LR) (cells UR)) g) \<rparr>,
           Inr (mask_off_disk np (rsun s)
               (amap4 (pixel_area np) (cells UL) (cells LL) (cells LR) (cells UR)) g))"
    using c1 c2 c3 c4 u1 u2 u3 u4 g r by (simp add: eoa_grid_def Let_def)
  with e1 e2 e3 e4 g4 u1 u2 u3 u4 g show ?thesis by simp
qed

subsection \<open>Rows other than the first\<close>

lemma clamp_lower_rows:
  assumes "shaped n m a" "0 < i" "i < n" "j < m"
  shows "clamp np c a ! i ! j = (if fgt np (a ! i ! j) c then c else a ! i ! j)"
proof (cases "list_ex (list_ex (\<lambda>v. fgt np v c)) (tl a)")
  case True
  then show ?thesis
    using assms by (simp add: clamp_def nth_amap[of n m])
next
  case False
  have len: "length a = n" "length (a ! i) = m"
    using assms by (simp_all add: shaped_def list_all_length)
  have "a ! i \<in> set (tl a)"
    using assms(2,3) len(1) by (cases a) (auto simp: nth_Cons' )
  moreover have "a ! i ! j \<in> set (a ! i)"
    using assms(4) len(2) by simp
  ultimately have "\<not> fgt np (a ! i ! j) c"
    using False by (auto simp: list_ex_iff)
  with False show ?thesis by (simp add: clamp_def)
qed

lemma transform_lower_rows:
  assumes sx: "shaped n m x" and sy: "shaped n m y" and i: "0 < i" "i < n" and j: "j < m"
    and t: "transform np radius x y = Inr (hgln, hglt)"
  shows "hgln ! i ! j = fst (lower_cell np radius (x ! i ! j) (y ! i ! j))"
    and "hglt ! i ! j = snd (lower_cell np radius (x ! i ! j) (y ! i ! j))"
proof -
  let ?xxat = "amap (\<lambda>v. ftan np (fdeg2rad np (fdiv np v (fof_int np 60)))) x"
  let ?yyat = "amap (\<lambda>v. ftan np (fdeg2rad np (fdiv np v (fof_int np 60)))) y"
  let ?rat2 = "amap2 (fadd np) (amap (fsq np) ?xxat) (amap (fsq np) ?yyat)"
  let ?phi = "(amap (fmul np (fof_int np 0)) ?rat2)[0 := map (\<lambda>(u, v). farctan2 np u v) (zip (?xxat ! 0) (?yyat ! 0))]"
  let ?c = "clamp np (max_rat2 np radius) ?rat2"
  let ?ras2 = "(amap (fmul np (fof_int np 0)) ?c)[0 := map (\<lambda>v. fdiv np (fof_int np 1)
                                   (fadd np (fof_int np 1) (fdiv np (fof_int np 1) v))) (?c ! 0)]"
  have pos: "0 < n" using i by simp
  have sxx: "shaped n m ?xxat" and syy: "shaped n m ?yyat"
    using sx sy by (simp_all add: shaped_amap)
  have sr: "shaped n m ?rat2"
    using sxx syy by (simp add: shaped_amap shaped_amap2)
  have sp: "shaped n m ?phi"
    using sr sxx syy pos by (simp add: shaped_update shaped_amap shaped_nth)
  have sc: "shaped n m ?c" using sr by (simp add: shaped_clamp)
  have ss: "shaped n m ?ras2"
    using sc pos by (simp add: shaped_update shaped_amap shaped_nth)
  have rij: "?rat2 ! i ! j = fadd np (fsq np (ftan np (fdeg2rad np (fdiv np (x ! i ! j) (fof_int np 60)))))
                              (fsq np (ftan np (fdeg2rad np (fdiv np (y ! i ! j) (fof_int np 60)))))"
    using sx sy sxx syy i j by (simp add: nth_amap[of n m] nth_amap2[of n m] shaped_amap)
  have pij: "?phi ! i ! j = fmul np (fof_int np 0) (?rat2 ! i ! j)"
    using sr i j by (simp add: nth_amap[of n m])
  have cij: "?c ! i ! j = (if fgt np (?rat2 ! i ! j) (max_rat2 np radius) then max_rat2 np radius else ?rat2 ! i ! j)"
    using clamp_lower_rows[OF sr i j] .
  have sij: "?ras2 ! i ! j = fmul np (fof_int np 0) (?c ! i ! j)"
    using sc i j by (simp add: nth_amap[of n m])
  have tr: "transform np radius x y = to_sphere np radius ?phi ?c"
    using sxx syy pos
    by (simp add: transform_def Let_def take_rows_where_True shaped_nonempty
        put_rows_where_True amap2_single)
  have ts: "to_sphere np radius ?phi ?c =
      Inr (amap2 (farctan2 np)
             (amap2 (fadd np) (amap (\<lambda>v. fmul np v (Robs np radius)) ?ras2)
                (amap2 (fmul np) (amap (fsqrt np) (amap (fsub np (fof_int np 1)) ?ras2))
                   (amap (fsqrt np) (amap (\<lambda>v. fsub np (fof_int np 1) (fmul np (fsq np (Robs np radius)) v)) ?ras2))))
             (amap2 (fmul np) (amap (fsin np) ?phi) (amap (\<lambda>v. fsqrt np (fmul np v (Robs np radius))) ?c)),
           amap (farcsin np)
             (amap2 (fmul np) (amap (fcos np) ?phi) (amap (\<lambda>v. fsqrt np (fmul np v (Robs np radius))) ?c)))"
    using sc pos
    by (simp add: to_sphere_def take_rows_where_True shaped_nonempty put_rows_where_True
        amap_single Let_def)
  let ?R = "Robs np radius"
  let ?X = "amap2 (fadd np) (amap (\<lambda>v. fmul np v ?R) ?ras2)
                (amap2 (fmul np) (amap (fsqrt np) (amap (fsub np (fof_int np 1)) ?ras2))
                   (amap (fsqrt np) (amap (\<lambda>v. fsub np (fof_int np 1) (fmul np (fsq np ?R) v)) ?ras2)))"
  let ?RR = "amap (\<lambda>v. fsqrt np (fmul np v ?R)) ?c"
  let ?T1 = "amap2 (fmul np) (amap (fsin np) ?phi) ?RR"
  let ?T2 = "amap2 (fmul np) (amap (fcos np) ?phi) ?RR"
  from t tr ts have ln: "hgln = amap2 (farctan2 np) ?X ?T1" and lt: "hglt = amap (farcsin np) ?T2"
    by simp_all
  have sX: "shaped n m ?X" using ss by (simp add: shaped_amap shaped_amap2)
  have sRR: "shaped n m ?RR" using sc by (simp add: shaped_amap)
  have sT1: "shaped n m ?T1" using sp sRR by (simp add: shaped_amap shaped_amap2)
  have sT2: "shaped n m ?T2" using sp sRR by (simp add: shaped_amap shaped_amap2)
  have RRij: "?RR ! i ! j = fsqrt np (fmul np (?c ! i ! j) ?R)"
    using nth_amap[OF sc i(2) j] .
  have T1ij: "?T1 ! i ! j = fmul np (fsin np (?phi ! i ! j)) (?RR ! i ! j)"
    using nth_amap2[of n m "amap (fsin np) ?phi" ?RR i j "fmul np"] nth_amap[OF sp i(2) j, of "fsin np"]
      sp sRR i j
    by (simp only: shaped_amap)
  have T2ij: "?T2 ! i ! j = fmul np (fcos np (?phi ! i ! j)) (?RR ! i ! j)"
    using nth_amap2[of n m "amap (fcos np) ?phi" ?RR i j "fmul np"] nth_amap[OF sp i(2) j, of "fcos np"]
      sp sRR i j
    by (simp only: shaped_amap)
  have A: "amap (\<lambda>v. fmul np v ?R) ?ras2 ! i ! j = fmul np (?ras2 ! i ! j) ?R"
    using nth_amap[OF ss i(2) j] .
  have B: "amap (fsqrt np) (amap (fsub np (fof_int np 1)) ?ras2) ! i ! j
             = fsqrt np (fsub np (fof_int np 1) (?ras2 ! i ! j))"
    using nth_amap[of n m "amap (fsub np (fof_int np 1)) ?ras2" i j "fsqrt np"]
      nth_amap[OF ss i(2) j, of "fsub np (fof_int np 1)"] ss i j
    by (simp only: shaped_amap)
  have C: "amap (fsqrt np) (amap (\<lambda>v. fsub np (fof_int np 1) (fmul np (fsq np ?R) v)) ?ras2) ! i ! j
             = fsqrt np (fsub np (fof_int np 1) (fmul np (fsq np ?R) (?ras2 ! i ! j)))"
    using nth_amap[of n m "amap (\<lambda>v. fsub np (fof_int np 1) (fmul np (fsq np ?R) v)) ?ras2" i j "fsqrt np"]
      nth_amap[OF ss i(2) j, of "\<lambda>v. fsub np (fof_int np 1) (fmul np (fsq np ?R) v)"] ss i j
    by (simp only: shaped_amap)
  have sB: "shaped n m (amap (fsqrt np) (amap (fsub np (fof_int np 1)) ?ras2))"
    and sC: "shaped n m (amap (fsqrt np) (amap (\<lambda>v. fsub np (fof_int np 1) (fmul np (fsq np ?R) v)) ?ras2))"
    and sA: "shaped n m (amap (\<lambda>v. fmul np v ?R) ?ras2)"
    using ss by (simp_all only: shaped_amap)
  have BC: "amap2 (fmul np) (amap (fsqrt np) (amap (fsub np (fof_int np 1)) ?ras2))
                   (amap (fsqrt np) (amap (\<lambda>v. fsub np (fof_int np 1) (fmul np (fsq np ?R) v)) ?ras2)) ! i ! j
            = fmul np (fsqrt np (fsub np (fof_int np 1) (?ras2 ! i ! j)))
                (fsqrt np (fsub np (fof_int np 1) (fmul np (fsq np ?R) (?ras2 ! i ! j))))"
    using nth_amap2[OF sB sC i(2) j, of "fmul np"] B C by (simp only:)
  have Xij: "?X ! i ! j = fadd np (fmul np (?ras2 ! i ! j) ?R)
               (fmul np (fsqrt np (fsub np (fof_int np 1) (?ras2 ! i ! j)))
                  (fsqrt np (fsub np (fof_int np 1) (fmul np (fsq np ?R) (?ras2 ! i ! j)))))"
    using nth_amap2[OF sA shaped_amap2[OF sB sC] i(2) j, of "fadd np" "fmul np"] A BC by (simp only:)
  have lon: "hgln ! i ! j = farctan2 np (?X ! i ! j) (?T1 ! i ! j)"
    unfolding ln using nth_amap2[OF sX sT1 i(2) j] .
  have lat: "hglt ! i ! j = farcsin np (?T2 ! i ! j)"
    unfolding lt using nth_amap[OF sT2 i(2) j] .
  show "hgln ! i ! j = fst (lower_cell np radius (x ! i ! j) (y ! i ! j))"
    unfolding lon Xij T1ij RRij sij pij cij rij by (simp add: lower_cell_def Let_def)
  show "hglt ! i ! j = snd (lower_cell np radius (x ! i ! j) (y ! i ! j))"
    unfolding lat T2ij RRij pij cij rij by (simp add: lower_cell_def Let_def)
qed


lemma heliographic_grid_lower_rows:
  assumes i: "0 < i" "i < ydim s" and j: "j < xdim s"
    and r: "snd (heliographic_grid np s [dx, dy]) = Inr (lon, lat)"
  shows "lon ! i ! j = frad2deg np (fst (lower_cell np (rsun s)
            (fmul np (fadd np (fsub np (fof_int np (int j)) (X0 s)) dx) (xScl s))
            (fneg np (fmul np (fadd np (fsub np (fof_int np (int i)) (Y0 s)) dy) (yScl s)))))"
    and "lat ! i ! j = frad2deg np (snd (lower_cell np (rsun s)
            (fmul np (fadd np (fsub np (fof_int np (int j)) (X0 s)) dx) (xScl s))
            (fneg np (fmul np (fadd np (fsub np (fof_int np (int i)) (Y0 s)) dy) (yScl s)))))"
proof -
  let ?xrow = "fst (pixel_rows np s [dx, dy])" and ?yrow = "snd (pixel_rows np s [dx, dy])"
  let ?gx = "fst (meshgrid ?xrow ?yrow)" and ?gy = "snd (meshgrid ?xrow ?yrow)"
  have pos: "0 < ydim s" using i by simp
  have sx: "shaped (ydim s) (xdim s) ?gx" and sy0: "shaped (ydim s) (xdim s) ?gy"
    using shaped_meshgrid[of ?yrow ?xrow] by (simp_all add: length_pixel_rows)
  then have sy: "shaped (ydim s) (xdim s) (amap (fneg np) ?gy)" by (simp add: shaped_amap)
  from transform_returns[OF sx sy pos, of np "rsun s"]
  obtain hgln hglt where t: "transform np (rsun s) ?gx (amap (fneg np) ?gy) = Inr (hgln, hglt)"
    and sh: "shaped (ydim s) (xdim s) hgln" "shaped (ydim s) (xdim s) hglt"
    by blast
  from r t have lon: "lon = amap (frad2deg np) hgln" and lat: "lat = amap (frad2deg np) hglt"
    by (simp_all add: heliographic_grid_parts Let_def)
  have gxij: "?gx ! i ! j = fmul np (fadd np (fsub np (fof_int np (int j)) (X0 s)) dx) (xScl s)"
    using i j by (simp add: nth_meshgrid length_pixel_rows) (simp add: pixel_rows_def)
  have gyij: "amap (fneg np) ?gy ! i ! j = fneg np (fmul np (fadd np (fsub np (fof_int np (int i)) (Y0 s)) dy) (yScl s))"
    using i j nth_amap[OF sy0 i(2) j, of "fneg np"]
    by (simp add: nth_meshgrid length_pixel_rows) (simp add: pixel_rows_def)
  from transform_lower_rows[OF sx sy i j t]
  have "hgln ! i ! j = fst (lower_cell np (rsun s) (?gx ! i ! j) (amap (fneg np) ?gy ! i ! j))"
    and "hglt ! i ! j = snd (lower_cell np (rsun s) (?gx ! i ! j) (amap (fneg np) ?gy ! i ! j))"
    by simp_all
  then show "lon ! i ! j = frad2deg np (fst (lower_cell np (rsun s)
            (fmul np (fadd np (fsub np (fof_int np (int j)) (X0 s)) dx) (xScl s))
            (fneg np (fmul np (fadd np (fsub np (fof_int np (int i)) (Y0 s)) dy) (yScl s)))))"
    and "lat ! i ! j = frad2deg np (snd (lower_cell np (rsun s)
            (fmul np (fadd np (fsub np (fof_int np (int j)) (X0 s)) dx) (xScl s))
            (fneg np (fmul np (fadd np (fsub np (fof_int np (int i)) (Y0 s)) dy) (yScl s)))))"
    unfolding lon lat gxij gyij using nth_amap[OF sh(1) i(2) j] nth_amap[OF sh(2) i(2) j] by simp_all
qed

subsection \<open>The exact instance below the first row\<close>

lemma cos_small_angle:
  assumes "\<bar>v\<bar> < 5400"
  shows "cos (v / 60 * pi / 180) \<noteq> 0"
proof -
  have lo: "- 5400 < v" and hi: "v < 5400" using assms by simp_all
  have "(- 5400) * pi < v * pi" using lo pi_gt_zero by (intro mult_strict_right_mono) simp_all
  then have l: "- (pi / 2) < v / 60 * pi / 180" by simp
  have "v * pi < 5400 * pi" using hi pi_gt_zero by (intro mult_strict_right_mono) simp_all
  then have h: "v / 60 * pi / 180 < pi / 2" by simp
  have "0 < cos (v / 60 * pi / 180)"
    using cos_gt_zero_pi[OF l h] .
  then show ?thesis by simp
qed

text \<open>For a solar radius of at most 1800 arcseconds the angle of line 106 is at most
  30 degrees, and its tangent at most 3/5.\<close>

lemma tan_radius:
  assumes "0 < r" "r \<le> 1800"
  shows "0 < tan (r / 60 * pi / 180)" and "tan (r / 60 * pi / 180) \<le> 3 / 5"
    and "cos (r / 60 * pi / 180) \<noteq> 0"
proof -
  let ?a = "r / 60 * pi / 180"
  have a0: "0 < ?a" using assms(1) pi_gt_zero by simp
  have "?a = (r / 1800) * (pi / 6)" by simp
  moreover have "(r / 1800) * (pi / 6) \<le> 1 * (pi / 6)"
    using assms pi_gt_zero by (intro mult_right_mono) simp_all
  ultimately have a6: "?a \<le> pi / 6" by simp
  have a2: "?a < pi / 2" using a6 pi_gt_zero by linarith
  show "0 < tan ?a" using tan_gt_zero[OF a0 a2] .
  have "tan ?a \<le> tan (pi / 6)"
    using tan_mono_le[of ?a "pi / 6"] a0 a6 pi_gt_zero by simp
  also have "\<dots> = 1 / sqrt 3" by (rule tan_30)
  also have "\<dots> \<le> 3 / 5"
  proof -
    have "(5 / 3 :: real) \<le> sqrt 3" by (rule real_le_rsqrt) (simp add: power2_eq_square)
    then show ?thesis by (simp add: field_simps)
  qed
  finally show "tan ?a \<le> 3 / 5" .
  show "cos ?a \<noteq> 0" using cos_gt_zero_pi[of ?a] a0 a2 by simp
qed

lemma tan_arcsin_sq:
  assumes "0 < t" "t \<le> 3 / 5"
  shows "cos (arcsin t) \<noteq> 0"
    and "0 \<le> tan (arcsin t) * tan (arcsin t)"
    and "tan (arcsin t) * tan (arcsin t) \<le> t"
proof -
  have b: "- 1 \<le> t" "t \<le> 1" "- 1 < t" "t < 1" using assms by simp_all
  show c0: "cos (arcsin t) \<noteq> 0" by (rule cos_arcsin_nonzero[OF b(3,4)])
  show "0 \<le> tan (arcsin t) * tan (arcsin t)" by simp
  have t2: "t * t \<le> (3 / 5) * (3 / 5)" using assms by (intro mult_mono) simp_all
  have c2: "cos (arcsin t) * cos (arcsin t) = 1 - t * t"
    using cos_arcsin[OF b(1,2)] t2 by (simp add: power2_eq_square)
  have pos: "0 < 1 - t * t" using t2 by simp
  have "tan (arcsin t) * tan (arcsin t) = (t * t) / (1 - t * t)"
    unfolding tan_def using b(1,2) c2 by simp
  also have "\<dots> \<le> t"
  proof -
    have "t * t \<le> t * (1 - t * t)"
    proof -
      have "t \<le> 1 - t * t" using t2 assms by simp
      then show ?thesis using assms(1) by (simp add: mult_left_mono)
    qed
    then show ?thesis using pos by (simp add: pos_divide_le_eq)
  qed
  finally show "tan (arcsin t) * tan (arcsin t) \<le> t" .
qed

lemma Robs_exact:
  assumes "0 < r" "r \<le> 1800"
  shows "Robs np_exact (Some r) = Some (1 / tan (r / 60 * pi / 180))"
  using tan_radius[OF assms] by (simp add: Robs_def np_exact_def lift2_def)

lemma max_rat2_exact:
  assumes "0 < r" "r \<le> 1800"
  shows "max_rat2 np_exact (Some r)
           = Some (tan (arcsin (tan (r / 60 * pi / 180))) * tan (arcsin (tan (r / 60 * pi / 180))))"
proof -
  let ?t = "tan (r / 60 * pi / 180)"
  have t: "0 < ?t" "?t \<le> 3 / 5" using tan_radius[OF assms] by simp_all
  have a: "\<bar>?t\<bar> \<le> 1" using t by simp
  have c: "cos (arcsin ?t) \<noteq> 0" using tan_arcsin_sq(1)[OF t] .
  show ?thesis
    using a c t by (simp add: max_rat2_def Robs_exact[OF assms] Let_def) (simp add: np_exact_def lift2_def)
qed

lemma lower_cell_exact:
  assumes r: "0 < r" "r \<le> 1800"
    and v: "\<bar>xv\<bar> < 5400" "\<bar>yv\<bar> < 5400"
  shows "\<exists>l. 0 \<le> l \<and> l \<le> pi / 2
           \<and> lower_cell np_exact (Some r) (Some xv) (Some yv) = (Some (pi / 2), Some l)"
proof -
  let ?t = "tan (r / 60 * pi / 180)"
  define mv where "mv = tan (arcsin ?t) * tan (arcsin ?t)"
  define rv where "rv = tan (xv / 60 * pi / 180) * tan (xv / 60 * pi / 180)
                         + tan (yv / 60 * pi / 180) * tan (yv / 60 * pi / 180)"
  define cv where "cv = (if mv < rv then mv else rv)"
  have t: "0 < ?t" "?t \<le> 3 / 5" using tan_radius[OF r] by simp_all
  have mv0: "0 \<le> mv" and mvt: "mv \<le> ?t" using tan_arcsin_sq[OF t] by (simp_all add: mv_def)
  have rv0: "0 \<le> rv" by (simp add: rv_def)
  have cv0: "0 \<le> cv" and cvm: "cv \<le> mv" using rv0 mv0 by (simp_all add: cv_def)
  have nn: "0 \<le> cv * (1 / ?t)" using cv0 t(1) by simp
  have "cv * (1 / ?t) \<le> ?t * (1 / ?t)"
    using cvm mvt t(1) by (intro mult_right_mono) simp_all
  then have le1: "cv * (1 / ?t) \<le> 1" using t(1) by simp
  then have s1: "sqrt (cv * (1 / ?t)) \<le> 1" by simp
  have s0: "0 \<le> sqrt (cv * (1 / ?t))" using nn by simp
  have at: "arctan2 1 0 = pi / 2" by (simp add: arctan2_def)
  have rat2: "fadd np_exact (fsq np_exact (ftan np_exact (fdeg2rad np_exact (fdiv np_exact (Some xv) (fof_int np_exact 60)))))
                 (fsq np_exact (ftan np_exact (fdeg2rad np_exact (fdiv np_exact (Some yv) (fof_int np_exact 60))))) = Some rv"
    using cos_small_angle[OF v(1)] cos_small_angle[OF v(2)] by (simp add: np_exact_def lift2_def rv_def)
  have c: "(if fgt np_exact (Some rv) (Some mv) then Some mv else Some rv) = Some cv"
    by (simp add: np_exact_def cv_def)
  have eq: "lower_cell np_exact (Some r) (Some xv) (Some yv)
          = (Some (pi / 2), Some (arcsin (sqrt (cv * (1 / ?t)))))"
    unfolding lower_cell_def Let_def rat2 max_rat2_exact[OF r] Robs_exact[OF r] mv_def[symmetric] c
    using nn s0 s1 at by (simp add: np_exact_def lift2_def)
  have lo: "0 \<le> arcsin (sqrt (cv * (1 / ?t)))"
    using s0 s1 by (simp add: arcsin_nonneg)
  have m1: "- 1 \<le> sqrt (cv * (1 / ?t))" using s0 by linarith
  have hi: "arcsin (sqrt (cv * (1 / ?t))) \<le> pi / 2"
    using arcsin_bounded[OF m1 s1] by blast
  from eq lo hi show ?thesis by blast
qed


lemma unit_vector_exact:
  "unit_vector np_exact (Some (l * 180 / pi)) (Some 90) = (Some 0, Some (cos l), Some (sin l))"
proof -
  have a: "(90::real) * pi / 180 = pi / 2" by simp
  have b: "l * 180 / pi * pi / 180 = l" by simp
  show ?thesis
    unfolding unit_vector_def by (simp add: np_exact_def lift2_def a b del: times_divide_eq_left times_divide_eq_right)
qed

lemma dot_exact:
  "dot np_exact (Some 0, Some ca, Some sa) (Some 0, Some cb, Some sb) = Some (ca * cb + sa * sb)"
  by (simp add: dot_def np_exact_def lift2_def)

lemma triple_exact:
  "dot np_exact (cross np_exact (Some 0, Some ca, Some sa) (Some 0, Some cb, Some sb))
     (Some 0, Some cc, Some sc) = Some 0"
  by (simp add: dot_def cross_def np_exact_def lift2_def)

lemma half_angle_exact:
  assumes "0 \<le> d1" "0 \<le> d2" "0 \<le> d3"
  shows "fmul np_exact (fof_int np_exact 2)
           (farctan2 np_exact (Some 0)
              (fadd np_exact (fadd np_exact (fadd np_exact (Some d1) (Some d2)) (Some d3))
                 (fof_int np_exact 1))) = Some 0"
proof -
  have "0 < d1 + d2 + d3 + 1" using assms by linarith
  then show ?thesis by (simp add: np_exact_def lift2_def arctan2_def)
qed

lemma cos_diff_nonneg:
  assumes "0 \<le> a" "a \<le> pi / 2" "0 \<le> b" "b \<le> pi / 2"
  shows "0 \<le> cos a * cos b + sin a * sin b"
proof -
  have "0 \<le> cos a" "0 \<le> cos b" using assms pi_gt_zero by (simp_all add: cos_ge_zero)
  moreover have "0 \<le> sin a" "0 \<le> sin b" using assms pi_gt_zero by (simp_all add: sin_ge_zero)
  ultimately show ?thesis by simp
qed

text \<open>Four corners of longitude 90 degrees lie on one great circle: in the exact
  instance both triple products are 0, and so is the area.\<close>

lemma pixel_area_zero:
  assumes "0 \<le> l1" "l1 \<le> pi / 2" "0 \<le> l2" "l2 \<le> pi / 2"
          "0 \<le> l3" "l3 \<le> pi / 2" "0 \<le> l4" "l4 \<le> pi / 2"
  shows "pixel_area np_exact (Some 90, Some (l1 * 180 / pi)) (Some 90, Some (l2 * 180 / pi))
           (Some 90, Some (l3 * 180 / pi)) (Some 90, Some (l4 * 180 / pi)) = Some 0"
proof -
  have h1: "fmul np_exact (fof_int np_exact 2)
           (farctan2 np_exact (Some 0)
              (fadd np_exact (fadd np_exact (fadd np_exact (Some (cos l1 * cos l2 + sin l1 * sin l2))
                    (Some (cos l2 * cos l3 + sin l2 * sin l3))) (Some (cos l3 * cos l1 + sin l3 * sin l1)))
                 (fof_int np_exact 1))) = Some 0"
    by (intro half_angle_exact cos_diff_nonneg assms)
  have h2: "fmul np_exact (fof_int np_exact 2)
           (farctan2 np_exact (Some 0)
              (fadd np_exact (fadd np_exact (fadd np_exact (Some (cos l3 * cos l4 + sin l3 * sin l4))
                    (Some (cos l4 * cos l1 + sin l4 * sin l1))) (Some (cos l3 * cos l1 + sin l3 * sin l1)))
                 (fof_int np_exact 1))) = Some 0"
    by (intro half_angle_exact cos_diff_nonneg assms)
  have "solid_angle np_exact (Some 90, Some (l1 * 180 / pi)) (Some 90, Some (l2 * 180 / pi))
           (Some 90, Some (l3 * 180 / pi)) (Some 90, Some (l4 * 180 / pi)) = Some 0"
    unfolding solid_angle_def Let_def fst_conv snd_conv unit_vector_exact triple_exact dot_exact h1 h2
    by (simp add: np_exact_def lift2_def)
  then show ?thesis by (simp add: pixel_area_def) (simp add: np_exact_def lift2_def)
qed

subsection \<open>The cells of the array call of eoa\<close>

lemma corner_cell_Some:
  assumes "0 < ydim s"
  shows "\<exists>lon lat. snd (heliographic_grid np s [dx, dy]) = Inr (lon, lat)
           \<and> shaped (ydim s) (xdim s) lon \<and> shaped (ydim s) (xdim s) lat
           \<and> corner_cell np s dx dy i j = Some (lon ! i ! j, lat ! i ! j)"
  using heliographic_grid_returns[OF assms, of np "[dx, dy]"]
  by (auto simp: corner_cell_def)

text \<open>A cell of the array that the array call of \<^verbatim>\<open>eoa\<close> returns.\<close>

lemma eoa_grid_cell:
  assumes "i < ydim s" "j < xdim s"
  shows "\<exists>UL LL LR UR g.
      corner_cell np s (fneg np (fhalf np)) (fneg np (fhalf np)) i j = Some UL
    \<and> corner_cell np s (fhalf np) (fneg np (fhalf np)) i j = Some LL
    \<and> corner_cell np s (fhalf np) (fhalf np) i j = Some LR
    \<and> corner_cell np s (fneg np (fhalf np)) (fhalf np) i j = Some UR
    \<and> rg (fst (eoa np s (NDArray d, rest))) = Some g
    \<and> g ! i ! j = radial_distance np s (fneg np (fhalf np)) (fhalf np) i j
    \<and> arr_cell (snd (eoa np s (NDArray d, rest))) i j =
        Some (if fgt np (g ! i ! j) (rsun s) then fnan np else pixel_area np UL LL LR UR)"
proof -
  let ?h = "fhalf np" and ?m = "fneg np (fhalf np)"
  have pos: "0 < ydim s" using assms(1) by simp
  from eoa_grid_result[OF pos, of np]
  obtain UL LL LR UR g where
        u: "snd (heliographic_grid np s [?m, ?m]) = Inr UL"
           "snd (heliographic_grid np s [?h, ?m]) = Inr LL"
           "snd (heliographic_grid np s [?h, ?h]) = Inr LR"
           "snd (heliographic_grid np s [?m, ?h]) = Inr UR"
    and g: "rg (fst (heliographic_grid np s [?m, ?h])) = Some g"
    and res: "snd (eoa_grid np s) =
        Inr (mask_off_disk np (rsun s)
               (amap4 (pixel_area np) (cells UL) (cells LL) (cells LR) (cells UR)) g)"
    and rg': "rg (fst (eoa_grid np s)) = Some g"
    by blast
  let ?a = "amap4 (pixel_area np) (cells UL) (cells LL) (cells LR) (cells UR)"
  from heliographic_grid_rg[OF assms, of np ?m ?h] g
  have sg: "shaped (ydim s) (xdim s) g"
    and gij: "g ! i ! j = radial_distance np s ?m ?h i j" by auto
  have s1: "shaped (ydim s) (xdim s) (fst UL)" "shaped (ydim s) (xdim s) (snd UL)"
    using heliographic_grid_returns[OF pos, of np "[?m, ?m]"] u(1) by auto
  have s2: "shaped (ydim s) (xdim s) (fst LL)" "shaped (ydim s) (xdim s) (snd LL)"
    using heliographic_grid_returns[OF pos, of np "[?h, ?m]"] u(2) by auto
  have s3: "shaped (ydim s) (xdim s) (fst LR)" "shaped (ydim s) (xdim s) (snd LR)"
    using heliographic_grid_returns[OF pos, of np "[?h, ?h]"] u(3) by auto
  have s4: "shaped (ydim s) (xdim s) (fst UR)" "shaped (ydim s) (xdim s) (snd UR)"
    using heliographic_grid_returns[OF pos, of np "[?m, ?h]"] u(4) by auto
  have sa: "shaped (ydim s) (xdim s) ?a"
    by (intro shaped_amap4 shaped_cells s1 s2 s3 s4)
  have aij: "?a ! i ! j = pixel_area np (fst UL ! i ! j, snd UL ! i ! j) (fst LL ! i ! j, snd LL ! i ! j)
                   (fst LR ! i ! j, snd LR ! i ! j) (fst UR ! i ! j, snd UR ! i ! j)"
    using nth_amap4[OF shaped_cells[OF s1] shaped_cells[OF s2] shaped_cells[OF s3] shaped_cells[OF s4] assms,
        of "pixel_area np"]
      nth_cells[OF s1 assms] nth_cells[OF s2 assms] nth_cells[OF s3 assms] nth_cells[OF s4 assms]
    by simp
  let ?r = "mask_off_disk np (rsun s) ?a g"
  have sr: "shaped (ydim s) (xdim s) ?r"
    using sa sg by (simp add: mask_off_disk_def shaped_amap2)
  have mij: "?r ! i ! j = (if fgt np (g ! i ! j) (rsun s) then fnan np else ?a ! i ! j)"
    using nth_mask_off_disk[OF sa sg assms] .
  have r: "snd (eoa np s (NDArray d, rest)) = Inr (Arr ?r)"
    using res by (cases "eoa_grid np s") (simp add: eoa_def)
  have len: "i < length ?r" "j < length (?r ! i)"
    using sr assms by (simp_all add: shaped_def list_all_length)
  have cell: "arr_cell (snd (eoa np s (NDArray d, rest))) i j = Some (?r ! i ! j)"
    unfolding r using len by (simp add: arr_cell_def)
  have rgs: "rg (fst (eoa np s (NDArray d, rest))) = Some g"
    using rg' res by (cases "eoa_grid np s") (simp add: eoa_def)
  have c: "corner_cell np s ?m ?m i j = Some (fst UL ! i ! j, snd UL ! i ! j)"
          "corner_cell np s ?h ?m i j = Some (fst LL ! i ! j, snd LL ! i ! j)"
          "corner_cell np s ?h ?h i j = Some (fst LR ! i ! j, snd LR ! i ! j)"
          "corner_cell np s ?m ?h i j = Some (fst UR ! i ! j, snd UR ! i ! j)"
    using u by (simp_all add: corner_cell_def split: prod.split)
  show ?thesis
    using c rgs gij cell mij aij by simp
qed

lemma scenario_fields:
  "xdim scenario = 1024" "ydim scenario = 1024" "X0 scenario = Some 512" "Y0 scenario = Some 512"
  "xScl scenario = Some 1" "yScl scenario = Some 1" "rsun scenario = Some 500"
  by (simp_all add: scenario_def new_CRD_def scenario_map_def xdim_def ydim_def xScl_def yScl_def)

text \<open>In the exact instance, a corner of a cell below the first row has a longitude
  of 90 degrees and a latitude between 0 and 90 degrees.\<close>

lemma corner_cell_exact:
  assumes i: "0 < i" "i < ydim s" and j: "j < xdim s"
    and r: "rsun s = Some r" "0 < r" "r \<le> 1800"
    and x: "fmul np_exact (fadd np_exact (fsub np_exact (fof_int np_exact (int j)) (X0 s)) dx) (xScl s) = Some xv"
           "\<bar>xv\<bar> < 5400"
    and y: "fneg np_exact (fmul np_exact (fadd np_exact (fsub np_exact (fof_int np_exact (int i)) (Y0 s)) dy) (yScl s)) = Some yv"
           "\<bar>yv\<bar> < 5400"
  shows "\<exists>l. 0 \<le> l \<and> l \<le> pi / 2
           \<and> corner_cell np_exact s dx dy i j = Some (Some 90, Some (l * 180 / pi))"
proof -
  have pos: "0 < ydim s" using i by simp
  from corner_cell_Some[OF pos, of np_exact dx dy i j]
  obtain lon lat where res: "snd (heliographic_grid np_exact s [dx, dy]) = Inr (lon, lat)"
    and c: "corner_cell np_exact s dx dy i j = Some (lon ! i ! j, lat ! i ! j)"
    by blast
  from lower_cell_exact[OF r(2,3) x(2) y(2)]
  obtain l where b: "0 \<le> l" "l \<le> pi / 2"
    and l: "lower_cell np_exact (Some r) (Some xv) (Some yv) = (Some (pi / 2), Some l)"
    by blast
  have "lon ! i ! j = Some 90"
    using heliographic_grid_lower_rows(1)[OF i j res] l
    by (simp add: r(1) x(1) y(1)) (simp add: np_exact_def)
  moreover have "lat ! i ! j = Some (l * 180 / pi)"
    using heliographic_grid_lower_rows(2)[OF i j res] l
    by (simp add: r(1) x(1) y(1)) (simp add: np_exact_def)
  ultimately show ?thesis using c b by auto
qed

lemma exact_halves:
  "fhalf np_exact = Some (1 / 2)" "fneg np_exact (fhalf np_exact) = Some (- (1 / 2))"
  by (simp_all add: np_exact_def)

text \<open>The four corners of a cell of the scenario below the first row.\<close>

lemma scenario_corners:
  assumes "0 < i" "i < 1024" "j < 1024"
  shows "\<exists>l1 l2 l3 l4.
      0 \<le> l1 \<and> l1 \<le> pi / 2 \<and> 0 \<le> l2 \<and> l2 \<le> pi / 2
    \<and> 0 \<le> l3 \<and> l3 \<le> pi / 2 \<and> 0 \<le> l4 \<and> l4 \<le> pi / 2
    \<and> corner_cell np_exact scenario (fneg np_exact (fhalf np_exact)) (fneg np_exact (fhalf np_exact)) i j
        = Some (Some 90, Some (l1 * 180 / pi))
    \<and> corner_cell np_exact scenario (fhalf np_exact) (fneg np_exact (fhalf np_exact)) i j
        = Some (Some 90, Some (l2 * 180 / pi))
    \<and> corner_cell np_exact scenario (fhalf np_exact) (fhalf np_exact) i j
        = Some (Some 90, Some (l3 * 180 / pi))
    \<and> corner_cell np_exact scenario (fneg np_exact (fhalf np_exact)) (fhalf np_exact) i j
        = Some (Some 90, Some (l4 * 180 / pi))"
proof -
  have d: "i < ydim scenario" "j < xdim scenario" using assms by (simp_all add: scenario_fields)
  have r: "rsun scenario = Some 500" "(0::real) < 500" "(500::real) \<le> 1800"
    by (simp_all add: scenario_fields)
  have ib: "real i < 1024" "real j < 1024" using assms by simp_all
  have x: "\<And>e. fmul np_exact (fadd np_exact (fsub np_exact (fof_int np_exact (int j)) (X0 scenario)) (Some e)) (xScl scenario)
             = Some (real j - 512 + e)"
    by (simp add: scenario_fields np_exact_def lift2_def)
  have y: "\<And>e. fneg np_exact (fmul np_exact (fadd np_exact (fsub np_exact (fof_int np_exact (int i)) (Y0 scenario)) (Some e)) (yScl scenario))
             = Some (- (real i - 512 + e))"
    by (simp add: scenario_fields np_exact_def lift2_def)
  have xb: "\<bar>real j - 512 + (- (1 / 2))\<bar> < 5400" "\<bar>real j - 512 + 1 / 2\<bar> < 5400"
    using ib by (simp_all add: abs_less_iff)
  have yb: "\<bar>- (real i - 512 + (- (1 / 2)))\<bar> < 5400" "\<bar>- (real i - 512 + 1 / 2)\<bar> < 5400"
    using ib by (simp_all add: abs_less_iff)
  from corner_cell_exact[OF assms(1) d r x xb(1) y yb(1)]
  obtain l1 where c1: "0 \<le> l1" "l1 \<le> pi / 2"
      "corner_cell np_exact scenario (Some (- (1 / 2))) (Some (- (1 / 2))) i j = Some (Some 90, Some (l1 * 180 / pi))"
    by blast
  from corner_cell_exact[OF assms(1) d r x xb(2) y yb(1)]
  obtain l2 where c2: "0 \<le> l2" "l2 \<le> pi / 2"
      "corner_cell np_exact scenario (Some (1 / 2)) (Some (- (1 / 2))) i j = Some (Some 90, Some (l2 * 180 / pi))"
    by blast
  from corner_cell_exact[OF assms(1) d r x xb(2) y yb(2)]
  obtain l3 where c3: "0 \<le> l3" "l3 \<le> pi / 2"
      "corner_cell np_exact scenario (Some (1 / 2)) (Some (1 / 2)) i j = Some (Some 90, Some (l3 * 180 / pi))"
    by blast
  from corner_cell_exact[OF assms(1) d r x xb(1) y yb(2)]
  obtain l4 where c4: "0 \<le> l4" "l4 \<le> pi / 2"
      "corner_cell np_exact scenario (Some (- (1 / 2))) (Some (1 / 2)) i j = Some (Some 90, Some (l4 * 180 / pi))"
    by blast
  show ?thesis
    unfolding exact_halves(2) unfolding exact_halves(1)
    using c1 c2 c3 c4 by blast
qed

text \<open>In the exact instance, the cell of the area array of the scenario for a pixel
  below the first row is 0 when the mask of line 231 leaves it.\<close>

lemma scenario_area_zero:
  assumes "0 < i" "i < 1024" "j < 1024"
    and "\<not> fgt np_exact (radial_distance np_exact scenario (fneg np_exact (fhalf np_exact)) (fhalf np_exact) i j)
               (rsun scenario)"
  shows "arr_cell (snd (eoa np_exact scenario (NDArray scenario_data, []))) i j = Some (Some 0)"
proof -
  have d: "i < ydim scenario" "j < xdim scenario" using assms by (simp_all add: scenario_fields)
  from eoa_grid_cell[OF d, of np_exact scenario_data "[]"]
  obtain UL LL LR UR g where
      u: "corner_cell np_exact scenario (fneg np_exact (fhalf np_exact)) (fneg np_exact (fhalf np_exact)) i j = Some UL"
         "corner_cell np_exact scenario (fhalf np_exact) (fneg np_exact (fhalf np_exact)) i j = Some LL"
         "corner_cell np_exact scenario (fhalf np_exact) (fhalf np_exact) i j = Some LR"
         "corner_cell np_exact scenario (fneg np_exact (fhalf np_exact)) (fhalf np_exact) i j = Some UR"
    and g: "g ! i ! j = radial_distance np_exact scenario (fneg np_exact (fhalf np_exact)) (fhalf np_exact) i j"
    and a: "arr_cell (snd (eoa np_exact scenario (NDArray scenario_data, []))) i j =
        Some (if fgt np_exact (g ! i ! j) (rsun scenario) then fnan np_exact else pixel_area np_exact UL LL LR UR)"
    by blast
  from scenario_corners[OF assms(1-3)] u
  obtain l1 l2 l3 l4 where b: "0 \<le> l1" "l1 \<le> pi / 2" "0 \<le> l2" "l2 \<le> pi / 2"
      "0 \<le> l3" "l3 \<le> pi / 2" "0 \<le> l4" "l4 \<le> pi / 2"
    and c: "UL = (Some 90, Some (l1 * 180 / pi))" "LL = (Some 90, Some (l2 * 180 / pi))"
      "LR = (Some 90, Some (l3 * 180 / pi))" "UR = (Some 90, Some (l4 * 180 / pi))"
    by auto
  have "pixel_area np_exact UL LL LR UR = Some 0"
    unfolding c by (rule pixel_area_zero[OF b])
  with a g assms(4) show ?thesis by simp
qed

text \<open>
  C6. The claim: in an array call of \<^verbatim>\<open>eoa\<close> every pixel whose radial distance
  from the disk centre exceeds the solar radius holds \<^verbatim>\<open>np.nan\<close>. The code tests
  \<^verbatim>\<open>self.rg\<close>, which every array call of \<^verbatim>\<open>heliographic\<close> overwrites: at line
  231 it is the grid of the fourth corner call, the distance of the corner at
  column \<open>j - 0.5\<close> and row \<open>i + 0.5\<close>. In the scenario of the specification the
  pixel in row 112 and column 813 lies at \<open>sqrt (301\<^sup>2 + 400\<^sup>2)\<close>, more than the
  solar radius of 500, from the disk centre, and its cell of the area array is
  a number and not \<^verbatim>\<open>np.nan\<close>: its corner lies at \<open>sqrt (300.5\<^sup>2 + 399.5\<^sup>2)\<close>,
  less than 500.
\<close>

theorem eoa_off_disk_pixel_not_nan:
  "fgt np_exact (radial_distance np_exact scenario (Some 0) (Some 0) 112 813) (rsun scenario)
   \<and> arr_cell (snd (eoa np_exact scenario (NDArray scenario_data, []))) 112 813 \<noteq> None
   \<and> arr_cell (snd (eoa np_exact scenario (NDArray scenario_data, []))) 112 813 \<noteq> Some (fnan np_exact)"
proof -
  have far: "(500::real) < sqrt 250601" by (rule real_less_rsqrt) simp
  have c1: "fgt np_exact (radial_distance np_exact scenario (Some 0) (Some 0) 112 813) (rsun scenario)"
    using far by (simp add: radial_distance_def np_exact_def lift2_def scenario_fields)
  have near: "sqrt (2499005 / 10) \<le> (500::real)" by (rule real_le_lsqrt) simp_all
  have c2: "\<not> fgt np_exact (radial_distance np_exact scenario (fneg np_exact (fhalf np_exact)) (fhalf np_exact) 112 813)
               (rsun scenario)"
    using near by (simp add: radial_distance_def np_exact_def lift2_def scenario_fields)
  have "arr_cell (snd (eoa np_exact scenario (NDArray scenario_data, []))) 112 813 = Some (Some 0)"
    by (rule scenario_area_zero[OF _ _ _ c2]) simp_all
  with c1 show ?thesis by (simp add: np_exact_def)
qed

text \<open>
  C7. The claim: for every pixel \<^verbatim>\<open>eoa\<close> returns the squared solar radius times
  the sum of the two solid angles of the pixel's four corners under the
  heliographic projection. The code: a pixel call returns nothing, it raises
  the IndexError of \<^verbatim>\<open>heliographic\<close>; and in an array call the corners of every
  cell below the first row have lost their azimuth (lines 114 and 126 assign
  \<^verbatim>\<open>phi\<close> and \<^verbatim>\<open>ras2\<close> in row 0 only), so that all four have longitude 90
  degrees and span no solid angle: in exact arithmetic the area of the pixel at
  the disk centre of the scenario, row 512 and column 512, is 0.
\<close>

theorem eoa_pixel_raises_and_area_zero:
  "snd (eoa np s (Scalar x, rest)) = Inl IndexError
   \<and> snd (eoa np_exact scenario (Scalar (Some 512), [Some 512])) = Inl IndexError
   \<and> arr_cell (snd (eoa np_exact scenario (NDArray scenario_data, []))) 512 512 = Some (Some 0)"
proof -
  have near: "sqrt (1 / 2) \<le> (500::real)" by (rule real_le_lsqrt) simp_all
  have c: "\<not> fgt np_exact (radial_distance np_exact scenario (fneg np_exact (fhalf np_exact)) (fhalf np_exact) 512 512)
               (rsun scenario)"
    using near by (simp add: radial_distance_def np_exact_def lift2_def scenario_fields)
  have "arr_cell (snd (eoa np_exact scenario (NDArray scenario_data, []))) 512 512 = Some (Some 0)"
    by (rule scenario_area_zero[OF _ _ _ c]) simp_all
  then show ?thesis by (simp add: eoa_def eoa_point_raises)
qed

end
